theory Spec2Isabelle
  imports Complex_Main "HOL-Library.AList"
begin

section \<open>Conventions\<close>

text \<open>
  Python floats are read as real numbers, Python dictionaries whose iteration order
  matters as association lists (a new key goes to the end, an existing key keeps its
  place), other dictionaries as maps. A key that a dictionary may lack is an
  \<open>option\<close> field. Exceptions are values of \<open>py_error\<close>. Library calls whose
  result depends on text parsing or on the clock (\<open>pd.Timestamp\<close>,
  \<open>datetime.fromisoformat\<close>, \<open>now()\<close>) are parameters of the functions that
  call them.
\<close>

datatype py_error = KeyError | ValueError | TypeError | ZeroDivisionError | IndexError

section \<open>risk\_manager.py\<close>

text \<open>
  A signal is the dictionary built by the strategy: \<open>action\<close>, \<open>instrument\<close>,
  \<open>size\<close>, \<open>price\<close>, \<open>time\<close>. The risk manager reads the first, second and
  fourth with \<open>.get\<close>, so they may be missing.
\<close>

record signal =
  sg_action :: "string option"
  sg_instrument :: "string option"
  sg_size :: int
  sg_price :: "real option"
  sg_time :: string

record order =
  o_action :: string
  o_instrument :: string
  o_size :: int
  o_entry_price :: real
  o_stop_loss :: real
  o_take_profit :: real

text \<open>The reason strings of \<open>apply_risk_rules\<close>, with the values they interpolate.\<close>

datatype no_trade_reason =
    DrawdownLimitExceeded
  | MissingInstrument
  | InvalidPrice "real option"
  | PriceMismatch
  | SizeTooSmall real
  | InvalidAction "string option"

record risk_manager =
  base_capital :: real
  max_drawdown :: real
  stop_loss_pct :: real
  take_profit_pct :: real
  max_position_fraction :: real
  current_drawdown :: real
  latest_price :: "string \<rightharpoonup> real"
  rm_no_trade_reasons :: "string \<rightharpoonup> no_trade_reason"

definition RiskManager_init :: "real \<Rightarrow> risk_manager" where
  "RiskManager_init capital =
     \<lparr>base_capital = capital, max_drawdown = 0.2, stop_loss_pct = 0.01,
      take_profit_pct = 0.05, max_position_fraction = 0.05, current_drawdown = 0,
      latest_price = Map.empty, rm_no_trade_reasons = Map.empty\<rparr>"

definition update_price :: "risk_manager \<Rightarrow> string \<Rightarrow> real \<Rightarrow> risk_manager" where
  "update_price rm instrument price =
     (if price > 0 then rm\<lparr>latest_price := (latest_price rm)(instrument \<mapsto> price)\<rparr>
      else rm)"

definition get_current_price :: "risk_manager \<Rightarrow> string option \<Rightarrow> real option" where
  "get_current_price rm instrument =
     (case instrument of None \<Rightarrow> None | Some i \<Rightarrow> latest_price rm i)"

definition get_current_drawdown :: "risk_manager \<Rightarrow> real" where
  "get_current_drawdown rm = current_drawdown rm"

text \<open>\<open>signal_info.get('instrument', 'Unknown')\<close> keys the recorded reason.\<close>

definition reason_key :: "signal \<Rightarrow> string" where
  "reason_key sg = (case sg_instrument sg of None \<Rightarrow> ''Unknown'' | Some i \<Rightarrow> i)"

definition log_no_trade_reason :: "risk_manager \<Rightarrow> signal \<Rightarrow> no_trade_reason \<Rightarrow> risk_manager" where
  "log_no_trade_reason rm sg reason =
     rm\<lparr>rm_no_trade_reasons := (rm_no_trade_reasons rm)(reason_key sg \<mapsto> reason)\<rparr>"

text \<open>Python's \<open>int(x)\<close> on a float truncates towards zero.\<close>

definition py_int :: "real \<Rightarrow> int" where
  "py_int x = (if x \<ge> 0 then \<lfloor>x\<rfloor> else \<lceil>x\<rceil>)"

text \<open>Truthiness of an optional number and of an optional string.\<close>

definition truthy_num :: "real option \<Rightarrow> bool" where
  "truthy_num p = (case p of None \<Rightarrow> False | Some v \<Rightarrow> v \<noteq> 0)"

definition truthy_str :: "string option \<Rightarrow> bool" where
  "truthy_str s = (case s of None \<Rightarrow> False | Some v \<Rightarrow> v \<noteq> [])"

text \<open>
  \<open>apply_risk_rules\<close> returns the risk manager with the recorded reason and the
  order; the empty dictionary of a rejection is \<open>None\<close>. The price it works with is
  \<open>latest_price if latest_price else signal_price\<close>.
\<close>

definition resolve_price :: "risk_manager \<Rightarrow> signal \<Rightarrow> real option" where
  "resolve_price rm sg =
     (let latest = get_current_price rm (sg_instrument sg)
      in if truthy_num latest then latest else sg_price sg)"

definition apply_risk_rules :: "risk_manager \<Rightarrow> signal \<Rightarrow> risk_manager \<times> order option" where
  "apply_risk_rules rm sg =
     (if get_current_drawdown rm > max_drawdown rm
      then (log_no_trade_reason rm sg DrawdownLimitExceeded, None)
      else
        let action = sg_action sg;
            instrument = sg_instrument sg;
            signal_price = sg_price sg;
            latest = get_current_price rm instrument
        in if \<not> truthy_str instrument
           then (log_no_trade_reason rm sg MissingInstrument, None)
           else
             let price = resolve_price rm sg
             in if \<not> truthy_num price \<or> the price \<le> 0
                then (log_no_trade_reason rm sg (InvalidPrice price), None)
                else if truthy_num latest \<and> truthy_num signal_price
                        \<and> \<bar>the latest - the signal_price\<bar> > 0.01 * the signal_price
                then (log_no_trade_reason rm sg PriceMismatch, None)
                else
                  let capital_risk = base_capital rm * max_position_fraction rm;
                      size = py_int (capital_risk / the price)
                  in if size \<le> 0
                     then (log_no_trade_reason rm sg (SizeTooSmall (the price)), None)
                     else if action \<noteq> Some ''buy'' \<and> action \<noteq> Some ''sell''
                     then (log_no_trade_reason rm sg (InvalidAction action), None)
                     else
                       let buy = (action = Some ''buy'');
                           stop_loss = the price *
                             (if buy then 1 - stop_loss_pct rm else 1 + stop_loss_pct rm);
                           take_profit = the price *
                             (if buy then 1 + take_profit_pct rm else 1 - take_profit_pct rm)
                       in (rm, Some \<lparr>o_action = the action, o_instrument = the instrument,
                                     o_size = size, o_entry_price = the price,
                                     o_stop_loss = stop_loss, o_take_profit = take_profit\<rparr>))"

text \<open>
  The guards of \<open>apply_risk_rules\<close> that come before the test of the action, all
  passed: drawdown, instrument, price, price consistency, size.
\<close>

definition passes_earlier_checks :: "risk_manager \<Rightarrow> signal \<Rightarrow> bool" where
  "passes_earlier_checks rm sg =
     (let latest = get_current_price rm (sg_instrument sg);
          price = resolve_price rm sg
      in \<not> get_current_drawdown rm > max_drawdown rm
         \<and> truthy_str (sg_instrument sg)
         \<and> truthy_num price \<and> the price > 0
         \<and> \<not> (truthy_num latest \<and> truthy_num (sg_price sg)
                \<and> \<bar>the latest - the (sg_price sg)\<bar> > 0.01 * the (sg_price sg))
         \<and> py_int (base_capital rm * max_position_fraction rm / the price) > 0)"

section \<open>strategy.py\<close>

text \<open>
  A float that may be pandas' missing value: every comparison with \<open>NaN\<close> is false.
\<close>

datatype fval = Num real | NaN

text \<open>
  The \<open>time\<close> entry of a bar is a string, parsed by \<open>datetime.fromisoformat\<close>, or
  already a datetime object.
\<close>

datatype 'dt time_field = TimeStr string | TimeObj 'dt

record 'dt current_bar =
  cb_time :: "'dt time_field option"
  cb_close :: "fval option"
  cb_sma :: "fval option"

record strategy =
  st_instrument :: string
  st_size :: int
  current_position :: "string option"
  st_no_trade_reasons :: "string \<Rightarrow> nat"

definition SMA_CrossoverStrategy_init :: "string \<Rightarrow> int \<Rightarrow> strategy" where
  "SMA_CrossoverStrategy_init instrument sz =
     \<lparr>st_instrument = instrument, st_size = sz, current_position = None,
      st_no_trade_reasons = (\<lambda>_. 0)\<rparr>"

definition count_reason :: "strategy \<Rightarrow> string \<Rightarrow> strategy" where
  "count_reason st r =
     st\<lparr>st_no_trade_reasons := (st_no_trade_reasons st)(r := st_no_trade_reasons st r + 1)\<rparr>"

text \<open>\<open>not time\<close>: the entry is missing, \<open>None\<close> or the empty string.\<close>

definition falsy_time :: "'dt time_field option \<Rightarrow> bool" where
  "falsy_time t = (case t of None \<Rightarrow> True | Some (TimeStr s) \<Rightarrow> s = [] | Some (TimeObj _) \<Rightarrow> False)"

definition mk_signal :: "strategy \<Rightarrow> string \<Rightarrow> real \<Rightarrow> string \<Rightarrow> signal" where
  "mk_signal st action price t =
     \<lparr>sg_action = Some action, sg_instrument = Some (st_instrument st),
      sg_size = st_size st, sg_price = Some price, sg_time = t\<rparr>"

text \<open>
  The chain of comparisons of \<open>generate_signal\<close>, in the order of the source. With a
  \<open>NaN\<close> on either side all four comparisons are false and the last branch is taken.
\<close>

definition crossover :: "strategy \<Rightarrow> fval \<Rightarrow> fval \<Rightarrow> string \<Rightarrow> strategy \<times> signal option" where
  "crossover st close_price sma t =
     (case (close_price, sma) of
        (Num c, Num s) \<Rightarrow>
          if c > s then
            (if current_position st \<noteq> Some ''long''
             then (st\<lparr>current_position := Some ''long''\<rparr>, Some (mk_signal st ''buy'' c t))
             else (st, None))
          else if c < s then
            (if current_position st \<noteq> Some ''short''
             then (st\<lparr>current_position := Some ''short''\<rparr>, Some (mk_signal st ''short'' c t))
             else (st, None))
          else if c \<le> s \<and> current_position st = Some ''long''
          then (st\<lparr>current_position := None\<rparr>, Some (mk_signal st ''sell'' c t))
          else if c \<ge> s \<and> current_position st = Some ''short''
          then (st\<lparr>current_position := None\<rparr>, Some (mk_signal st ''cover'' c t))
          else (count_reason st ''No trade condition met'', None)
      | _ \<Rightarrow> (count_reason st ''No trade condition met'', None))"

definition generate_signal ::
  "(string \<Rightarrow> 'dt option) \<Rightarrow> ('dt \<Rightarrow> string) \<Rightarrow> strategy \<Rightarrow> 'dt current_bar
     \<Rightarrow> strategy \<times> signal option" where
  "generate_signal fromisoformat isoformat st bar =
     (if falsy_time (cb_time bar) \<or> cb_close bar = None \<or> cb_sma bar = None
      then (count_reason st ''Incomplete data'', None)
      else
        case (case the (cb_time bar) of
                TimeStr s \<Rightarrow> fromisoformat s
              | TimeObj d \<Rightarrow> Some d) of
          None \<Rightarrow> (count_reason st ''Invalid time format'', None)
        | Some d \<Rightarrow> crossover st (the (cb_close bar)) (the (cb_sma bar)) (isoformat d))"

text \<open>The generator run over a sequence of bars; the signals come out in bar order.\<close>

fun run_strategy ::
  "(string \<Rightarrow> 'dt option) \<Rightarrow> ('dt \<Rightarrow> string) \<Rightarrow> strategy \<Rightarrow> 'dt current_bar list
     \<Rightarrow> strategy \<times> signal option list" where
  "run_strategy fi fmt st [] = (st, [])"
| "run_strategy fi fmt st (b # bs) =
     (let (st1, sig1) = generate_signal fi fmt st b;
          (st2, sigs) = run_strategy fi fmt st1 bs
      in (st2, sig1 # sigs))"

text \<open>
  A bar the generator can use whose close is above its average: a time that is there
  and can be parsed, and numbers for \<open>close\<close> and \<open>sma\<close>.
\<close>

definition usable_time :: "(string \<Rightarrow> 'dt option) \<Rightarrow> 'dt time_field option \<Rightarrow> bool" where
  "usable_time fi t =
     (case t of
        None \<Rightarrow> False
      | Some (TimeStr s) \<Rightarrow> s \<noteq> [] \<and> fi s \<noteq> None
      | Some (TimeObj d) \<Rightarrow> True)"

definition num_above :: "fval option \<Rightarrow> fval option \<Rightarrow> bool" where
  "num_above c m =
     (case c of
        Some (Num x) \<Rightarrow> (case m of Some (Num y) \<Rightarrow> x > y | _ \<Rightarrow> False)
      | _ \<Rightarrow> False)"

definition above_sma :: "(string \<Rightarrow> 'dt option) \<Rightarrow> 'dt current_bar \<Rightarrow> bool" where
  "above_sma fi bar = (usable_time fi (cb_time bar) \<and> num_above (cb_close bar) (cb_sma bar))"

section \<open>market\_analyzer.py\<close>

text \<open>
  A bar of the feed has \<open>time\<close>, \<open>open\<close>, \<open>high\<close>, \<open>low\<close>, \<open>close\<close> and
  \<open>volume\<close>. The analyzer only inspects \<open>close\<close>, which a bar may lack. What
  \<open>on_market_data\<close> returns is the latest bar, with an \<open>sma\<close> entry once the
  indicator is computed; pandas' conversion of the other entries in
  \<open>df.iloc[-1].to_dict()\<close> is not modelled.
\<close>

record 't bar =
  b_time :: 't
  b_open :: real
  b_high :: real
  b_low :: real
  b_close :: "real option"
  b_volume :: real

record 't enriched_bar =
  eb_bar :: "'t bar"
  eb_sma :: "fval option"

record 't market_update =
  mu_data :: "'t enriched_bar"
  mu_history :: "'t bar list"

record 't market_analyzer =
  indicator_window :: int
  buffer :: "'t bar list"

definition MarketAnalyzer_init :: "int \<Rightarrow> 't market_analyzer" where
  "MarketAnalyzer_init w = \<lparr>indicator_window = w, buffer = []\<rparr>"

text \<open>
  The value of \<open>df['close'].rolling(window=w).mean()\<close> in the last row, for a column
  of at least \<open>w\<close> values: the mean of the last \<open>w\<close> values when none of them is
  missing, and \<open>NaN\<close> otherwise (also for the empty window).
\<close>

definition rolling_mean_last :: "nat \<Rightarrow> real option list \<Rightarrow> fval" where
  "rolling_mean_last w col =
     (let window = drop (length col - w) col
      in if w = 0 \<or> None \<in> set window then NaN
         else Num (sum_list (map the window) / real w))"

definition process_data :: "'t market_analyzer \<Rightarrow> py_error + 't enriched_bar" where
  "process_data ma =
     (if int (length (buffer ma)) < indicator_window ma then
        (if buffer ma = [] then Inl IndexError
         else Inr \<lparr>eb_bar = last (buffer ma), eb_sma = None\<rparr>)
      else if \<forall>b \<in> set (buffer ma). b_close b = None then Inl KeyError
      else if indicator_window ma < 0 then Inl ValueError
      else Inr \<lparr>eb_bar = last (buffer ma),
                eb_sma = Some (rolling_mean_last (nat (indicator_window ma))
                                 (map b_close (buffer ma)))\<rparr>)"

text \<open>
  The slice \<open>self.buffer[-w:]\<close>: the last \<open>w\<close> elements for a positive \<open>w\<close>, the
  whole list for \<open>w = 0\<close>, the list without its first \<open>-w\<close> elements for a negative \<open>w\<close>.
\<close>

definition slice_last :: "int \<Rightarrow> 'a list \<Rightarrow> 'a list" where
  "slice_last w xs = (if w > 0 then drop (length xs - nat w) xs else drop (nat (- w)) xs)"

text \<open>
  \<open>on_market_data\<close> appends the bar, then computes the history window and the enriched
  bar. It returns the analyzer and either the exception of \<open>process_data\<close> or the update
  it publishes, whose data is the value the method returns. The buffer keeps the bar also
  when \<open>process_data\<close> raises. The price update of the risk manager and the delivery of
  the published update are outside this function.
\<close>

definition on_market_data ::
  "'t market_analyzer \<Rightarrow> 't bar \<Rightarrow> 't market_analyzer \<times> (py_error + 't market_update)" where
  "on_market_data ma data =
     (let ma1 = ma\<lparr>buffer := buffer ma @ [data]\<rparr>;
          history = (if int (length (buffer ma1)) < indicator_window ma1 then buffer ma1
                     else slice_last (indicator_window ma1) (buffer ma1))
      in case process_data ma1 of
           Inl e \<Rightarrow> (ma1, Inl e)
         | Inr enriched \<Rightarrow> (ma1, Inr \<lparr>mu_data = enriched, mu_history = history\<rparr>))"

fun feed :: "'t market_analyzer \<Rightarrow> 't bar list \<Rightarrow> 't market_analyzer" where
  "feed ma [] = ma"
| "feed ma (b # bs) = feed (fst (on_market_data ma b)) bs"

section \<open>order\_handler.py\<close>

record filled_order =
  fo_instrument :: string
  fo_filled_price :: real
  fo_size :: real
  fo_time :: string
  fo_action :: string
  fo_stop_loss :: real
  fo_take_profit :: real

record oh_position =
  op_entry_price :: real
  op_size :: real
  op_stop_loss :: real
  op_take_profit :: real

record order_handler =
  oh_capital :: real
  oh_position_size :: real
  open_positions :: "string \<rightharpoonup> oh_position"
  oh_realized_pnl :: real

definition OrderHandler_init :: "real \<Rightarrow> real \<Rightarrow> order_handler" where
  "OrderHandler_init capital position_size =
     \<lparr>oh_capital = capital, oh_position_size = position_size,
      open_positions = Map.empty, oh_realized_pnl = 0\<rparr>"

text \<open>
  \<open>OrderHandler.update_positions\<close> has no handler of its own: the division by a zero
  total size is returned as the exception, raised before anything is stored.
\<close>

definition OrderHandler_update_positions ::
  "order_handler \<Rightarrow> filled_order \<Rightarrow> py_error + order_handler" where
  "OrderHandler_update_positions oh fo =
     (let instrument = fo_instrument fo; action = fo_action fo;
          size = fo_size fo; filled_price = fo_filled_price fo
      in if action = ''buy'' then
           (case open_positions oh instrument of
              None \<Rightarrow>
                Inr (oh\<lparr>open_positions := (open_positions oh)(instrument \<mapsto>
                       \<lparr>op_entry_price = filled_price, op_size = size,
                        op_stop_loss = fo_stop_loss fo, op_take_profit = fo_take_profit fo\<rparr>)\<rparr>)
            | Some existing \<Rightarrow>
                let total_cost = op_entry_price existing * op_size existing + filled_price * size;
                    total_size = op_size existing + size
                in if total_size = 0 then Inl ZeroDivisionError
                   else Inr (oh\<lparr>open_positions := (open_positions oh)(instrument \<mapsto>
                          existing\<lparr>op_entry_price := total_cost / total_size,
                                   op_size := total_size\<rparr>)\<rparr>))
         else if action = ''sell'' then
           (case open_positions oh instrument of
              None \<Rightarrow> Inr oh
            | Some existing \<Rightarrow>
                let pnl = (filled_price - op_entry_price existing) * size;
                    oh1 = oh\<lparr>oh_realized_pnl := oh_realized_pnl oh + pnl\<rparr>;
                    reduced = existing\<lparr>op_size := op_size existing - size\<rparr>
                in if op_size reduced \<le> 0
                   then Inr (oh1\<lparr>open_positions := (open_positions oh1)(instrument := None)\<rparr>)
                   else Inr (oh1\<lparr>open_positions := (open_positions oh1)(instrument \<mapsto> reduced)\<rparr>))
         else Inr oh)"

text \<open>A sequence of fills; the first exception ends it.\<close>

fun fill_all :: "order_handler \<Rightarrow> filled_order list \<Rightarrow> py_error + order_handler" where
  "fill_all oh [] = Inr oh"
| "fill_all oh (fo # fos) =
     (case OrderHandler_update_positions oh fo of
        Inl e \<Rightarrow> Inl e
      | Inr oh1 \<Rightarrow> fill_all oh1 fos)"

text \<open>The invariant of the book of the order handler: every open position is long.\<close>

definition positive_book :: "order_handler \<Rightarrow> bool" where
  "positive_book oh = (\<forall>i p. open_positions oh i = Some p \<longrightarrow> 0 < op_size p)"

section \<open>portfolio\_manager.py\<close>

subsection \<open>Timestamps\<close>

text \<open>
  A \<open>pd.Timestamp\<close>: nanoseconds since the epoch, and whether it carries a time zone.
  Subtracting a zone-aware from a naive timestamp raises \<open>TypeError\<close>. The \<open>days\<close> of
  a difference is its floor in whole days.
\<close>

datatype tstamp = Timestamp (ts_ns: int) (ts_aware: bool)

definition ts_sub :: "tstamp \<Rightarrow> tstamp \<Rightarrow> py_error + int" where
  "ts_sub a b = (if ts_aware a = ts_aware b then Inr (ts_ns a - ts_ns b) else Inl TypeError)"

definition days :: "int \<Rightarrow> int" where
  "days delta = delta div 86400000000000"

subsection \<open>State\<close>

text \<open>
  The order data of a fill event: \<open>time\<close> and \<open>reason\<close> may be missing and are then
  filled in. A trade is the dictionary that ends up in the ledger.
\<close>

record fill =
  f_instrument :: string
  f_action :: string
  f_size :: real
  f_filled_price :: real
  f_time :: "string option"
  f_reason :: "string option"

record trade =
  t_instrument :: string
  t_action :: string
  t_size :: real
  t_filled_price :: real
  t_time :: string
  t_reason :: string
  t_net_profit :: real
  t_bars_held :: int

record position =
  p_size :: real
  p_entry_price :: real
  p_entry_time :: string

record stop_info =
  si_instrument :: string
  si_reason :: string
  si_stop_level :: real

record portfolio_manager =
  trades :: "trade list"
  positions :: "(string \<times> position) list"
  cash :: real
  starting_cash :: real
  realized_pnl :: real
  unrealized_pnl :: real
  market_data :: "string \<rightharpoonup> real"
  equity_curve :: "real list"

text \<open>
  \<open>market_data\<close> maps an instrument to its \<open>close\<close> when both the instrument and the
  \<open>close\<close> entry are there.
\<close>

definition PortfolioManager_init :: "real \<Rightarrow> portfolio_manager" where
  "PortfolioManager_init start =
     \<lparr>trades = [], positions = [], cash = start, starting_cash = start,
      realized_pnl = 0, unrealized_pnl = 0, market_data = Map.empty,
      equity_curve = [start]\<rparr>"

subsection \<open>Positions, cash, equity\<close>

definition update_realized_pnl :: "portfolio_manager \<Rightarrow> trade \<Rightarrow> portfolio_manager" where
  "update_realized_pnl pm tr = pm\<lparr>realized_pnl := realized_pnl pm + t_net_profit tr\<rparr>"

text \<open>
  \<open>update_positions\<close> changes the portfolio and the trade dictionary and catches its own
  exceptions: the result is the portfolio, the trade, and the exception it logged, if
  any. In the closing branch the timestamps are parsed before anything is written, and
  the \<open>del\<close> of a missing key comes after the trade and the realized P&L are written.
\<close>

definition update_positions ::
  "(string \<Rightarrow> tstamp option) \<Rightarrow> portfolio_manager \<Rightarrow> trade
     \<Rightarrow> portfolio_manager \<times> trade \<times> py_error option" where
  "update_positions to_ts pm tr =
     (let instr = t_instrument tr;
          size_change = (if t_action tr = ''buy'' then t_size tr else - t_size tr);
          pos = (case map_of (positions pm) instr of
                   None \<Rightarrow> \<lparr>p_size = 0, p_entry_price = 0, p_entry_time = t_time tr\<rparr>
                 | Some p \<Rightarrow> p);
          old_size = p_size pos;
          new_size = old_size + size_change
      in if old_size = 0 \<and> new_size \<noteq> 0 then
           (pm\<lparr>positions := AList.update instr
                  (pos\<lparr>p_entry_price := t_filled_price tr, p_entry_time := t_time tr,
                       p_size := new_size\<rparr>) (positions pm)\<rparr>, tr, None)
         else if new_size = 0 then
           (case to_ts (p_entry_time pos) of
              None \<Rightarrow> (pm, tr, Some ValueError)
            | Some entry_time \<Rightarrow>
               (case to_ts (t_time tr) of
                  None \<Rightarrow> (pm, tr, Some ValueError)
                | Some exit_time \<Rightarrow>
                   (case ts_sub exit_time entry_time of
                      Inl e \<Rightarrow> (pm, tr, Some e)
                    | Inr delta \<Rightarrow>
                       let bars_held = max (days delta) 1;
                           net_profit =
                             (if old_size > 0
                              then (t_filled_price tr - p_entry_price pos) * \<bar>size_change\<bar>
                              else (p_entry_price pos - t_filled_price tr) * \<bar>size_change\<bar>);
                           tr1 = tr\<lparr>t_net_profit := net_profit, t_bars_held := bars_held\<rparr>;
                           pm1 = update_realized_pnl pm tr1
                       in if map_of (positions pm1) instr = None
                          then (pm1, tr1, Some KeyError)
                          else (pm1\<lparr>positions := AList.delete instr (positions pm1)\<rparr>,
                                tr1, None))))
         else
           (let total_cost_before = p_entry_price pos * p_size pos;
                trade_cost = t_filled_price tr * size_change;
                new_entry_price = (total_cost_before + trade_cost) / new_size
            in (pm\<lparr>positions := AList.update instr
                      (pos\<lparr>p_entry_price := new_entry_price, p_size := new_size\<rparr>)
                      (positions pm)\<rparr>, tr, None)))"

definition update_cash :: "portfolio_manager \<Rightarrow> trade \<Rightarrow> portfolio_manager" where
  "update_cash pm tr =
     (let cost = t_filled_price tr * t_size tr
      in if t_action tr = ''buy'' then pm\<lparr>cash := cash pm - cost\<rparr>
         else pm\<lparr>cash := cash pm + cost\<rparr>)"

text \<open>The loop of \<open>calculate_unrealized_pnl\<close> over the open positions, in their order.\<close>

fun unrealized_sum :: "(string \<rightharpoonup> real) \<Rightarrow> (string \<times> position) list \<Rightarrow> real \<Rightarrow> real" where
  "unrealized_sum md [] acc = acc"
| "unrealized_sum md ((instr, pos) # ps) acc =
     (let size = p_size pos;
          entry_price = p_entry_price pos;
          current_price = (case md instr of None \<Rightarrow> entry_price | Some c \<Rightarrow> c)
      in unrealized_sum md ps
           (if size > 0 then acc + (current_price - entry_price) * size
            else acc + (entry_price - current_price) * \<bar>size\<bar>))"

definition calculate_unrealized_pnl :: "portfolio_manager \<Rightarrow> portfolio_manager \<times> real" where
  "calculate_unrealized_pnl pm =
     (let u = unrealized_sum (market_data pm) (positions pm) 0
      in (pm\<lparr>unrealized_pnl := u\<rparr>, u))"

definition update_equity_curve :: "portfolio_manager \<Rightarrow> portfolio_manager" where
  "update_equity_curve pm =
     (let (pm1, u) = calculate_unrealized_pnl pm;
          total_equity = cash pm1 + u
      in pm1\<lparr>equity_curve := equity_curve pm1 @ [total_equity]\<rparr>)"

subsection \<open>Event handlers\<close>

text \<open>
  Both handlers take the reading of the clock (\<open>pd.Timestamp.now().isoformat()\<close>) as
  \<open>now\<close>.
\<close>

text \<open>
  The first lines of \<open>on_order_filled\<close>: the missing \<open>time\<close> and \<open>reason\<close> are
  filled in, \<open>net_profit\<close> and \<open>bars_held\<close> are set to their placeholders.
\<close>

definition prepare_trade :: "string \<Rightarrow> fill \<Rightarrow> trade" where
  "prepare_trade now order_data =
     \<lparr>t_instrument = f_instrument order_data, t_action = f_action order_data,
      t_size = f_size order_data, t_filled_price = f_filled_price order_data,
      t_time = (case f_time order_data of None \<Rightarrow> now | Some t \<Rightarrow> t),
      t_reason = (case f_reason order_data of None \<Rightarrow> ''order_filled'' | Some r \<Rightarrow> r),
      t_net_profit = 0, t_bars_held = 0\<rparr>"

definition on_order_filled ::
  "(string \<Rightarrow> tstamp option) \<Rightarrow> string \<Rightarrow> portfolio_manager \<Rightarrow> fill \<Rightarrow> portfolio_manager" where
  "on_order_filled to_ts now pm order_data =
     (let tr = prepare_trade now order_data;
          (pm1, tr1, err) = update_positions to_ts pm tr;
          pm2 = update_cash pm1 tr1;
          pm3 = update_equity_curve pm2
      in pm3\<lparr>trades := trades pm3 @ [tr1]\<rparr>)"

definition on_stop_triggered ::
  "(string \<Rightarrow> tstamp option) \<Rightarrow> string \<Rightarrow> portfolio_manager \<Rightarrow> stop_info \<Rightarrow> portfolio_manager" where
  "on_stop_triggered to_ts now pm stop_details =
     (let instrument = si_instrument stop_details;
          reason = si_reason stop_details;
          current_size = (case map_of (positions pm) instrument of None \<Rightarrow> 0 | Some p \<Rightarrow> p_size p);
          size = \<bar>current_size\<bar>
      in if size > 0 then
           (let action = (if current_size > 0 then ''sell'' else ''buy'');
                stop_trade = \<lparr>t_instrument = instrument, t_action = action, t_size = size,
                              t_filled_price = si_stop_level stop_details, t_time = now,
                              t_reason = reason, t_net_profit = 0, t_bars_held = 0\<rparr>;
                (pm1, tr1, err) = update_positions to_ts pm stop_trade;
                pm2 = update_cash pm1 tr1;
                pm3 = update_equity_curve pm2
            in pm3\<lparr>trades := trades pm3 @ [tr1]\<rparr>)
         else pm)"

text \<open>The events the portfolio receives, each with the clock reading at its handling.\<close>

datatype pm_event = OrderFilled string fill | StopTriggered string stop_info

fun handle :: "(string \<Rightarrow> tstamp option) \<Rightarrow> portfolio_manager \<Rightarrow> pm_event \<Rightarrow> portfolio_manager" where
  "handle to_ts pm (OrderFilled now order_data) = on_order_filled to_ts now pm order_data"
| "handle to_ts pm (StopTriggered now stop_details) = on_stop_triggered to_ts now pm stop_details"

fun handle_all :: "(string \<Rightarrow> tstamp option) \<Rightarrow> portfolio_manager \<Rightarrow> pm_event list \<Rightarrow> portfolio_manager" where
  "handle_all to_ts pm [] = pm"
| "handle_all to_ts pm (ev # evs) = handle_all to_ts (handle to_ts pm ev) evs"

text \<open>
  An event is a processed fill when its handler reaches the update of positions, cash
  and equity: every order fill, and a stop that finds an open position.
\<close>

fun is_fill :: "portfolio_manager \<Rightarrow> pm_event \<Rightarrow> bool" where
  "is_fill pm (OrderFilled now order_data) = True"
| "is_fill pm (StopTriggered now stop_details) =
     (case map_of (positions pm) (si_instrument stop_details) of
        None \<Rightarrow> False
      | Some p \<Rightarrow> \<bar>p_size p\<bar> > 0)"

text \<open>
  The equity of the portfolio after each processed fill of a sequence of events:
  cash plus unrealized P&L, read right after the fill.
\<close>

fun equity_after_fills ::
  "(string \<Rightarrow> tstamp option) \<Rightarrow> portfolio_manager \<Rightarrow> pm_event list \<Rightarrow> real list" where
  "equity_after_fills to_ts pm [] = []"
| "equity_after_fills to_ts pm (ev # evs) =
     (let pm1 = handle to_ts pm ev
      in (if is_fill pm ev then [cash pm1 + unrealized_pnl pm1] else [])
         @ equity_after_fills to_ts pm1 evs)"

fun count_fills :: "(string \<Rightarrow> tstamp option) \<Rightarrow> portfolio_manager \<Rightarrow> pm_event list \<Rightarrow> nat" where
  "count_fills to_ts pm [] = 0"
| "count_fills to_ts pm (ev # evs) =
     (if is_fill pm ev then 1 else 0) + count_fills to_ts (handle to_ts pm ev) evs"

subsection \<open>Performance metrics\<close>

text \<open>A value of the metrics dictionary: a number, or \<open>np.inf\<close>.\<close>

datatype metric = Fin real | Inf

definition pf :: "real \<Rightarrow> real \<Rightarrow> metric" where
  "pf gp gl = (if gl \<noteq> 0 then Fin (gp / \<bar>gl\<bar>) else Inf)"

definition pct :: "nat \<Rightarrow> nat \<Rightarrow> real" where
  "pct part whole = (if whole > 0 then (real part / real whole) * 100 else 0)"

definition long_trades :: "trade list \<Rightarrow> trade list" where
  "long_trades ts = filter (\<lambda>t. t_action t = ''buy'') ts"

definition short_trades :: "trade list \<Rightarrow> trade list" where
  "short_trades ts = filter (\<lambda>t. t_action t = ''sell'') ts"

definition winners :: "trade list \<Rightarrow> trade list" where
  "winners ts = filter (\<lambda>t. t_net_profit t > 0) ts"

definition losers :: "trade list \<Rightarrow> trade list" where
  "losers ts = filter (\<lambda>t. t_net_profit t < 0) ts"

definition gross_profit :: "trade list \<Rightarrow> real" where
  "gross_profit ts = sum_list (map t_net_profit (winners ts))"

definition gross_loss :: "trade list \<Rightarrow> real" where
  "gross_loss ts = sum_list (map t_net_profit (losers ts))"

definition net_profit_of :: "trade list \<Rightarrow> real" where
  "net_profit_of ts = gross_profit ts + gross_loss ts"

definition winning_percentage :: "trade list \<Rightarrow> real" where
  "winning_percentage ts = pct (length (winners ts)) (length ts)"

definition losing_percentage :: "trade list \<Rightarrow> real" where
  "losing_percentage ts = 100 - winning_percentage ts"

definition avg_trade :: "trade list \<Rightarrow> real" where
  "avg_trade ts = (if length ts > 0 then net_profit_of ts / real (length ts) else 0)"

definition largest_win :: "trade list \<Rightarrow> real" where
  "largest_win ts = (case map t_net_profit ts of [] \<Rightarrow> 0 | x # xs \<Rightarrow> fold max xs x)"

definition largest_loss :: "trade list \<Rightarrow> real" where
  "largest_loss ts = (case map t_net_profit ts of [] \<Rightarrow> 0 | x # xs \<Rightarrow> fold min xs x)"

text \<open>The scan for the longest runs of winning and of other trades, in ledger order.\<close>

fun streaks :: "real list \<Rightarrow> nat \<Rightarrow> nat \<Rightarrow> nat \<Rightarrow> nat \<Rightarrow> nat \<times> nat" where
  "streaks [] max_wins max_losses current_wins current_losses = (max_wins, max_losses)"
| "streaks (p # ps) max_wins max_losses current_wins current_losses =
     (if p > 0
      then streaks ps (max max_wins (current_wins + 1)) max_losses (current_wins + 1) 0
      else streaks ps max_wins (max max_losses (current_losses + 1)) 0 (current_losses + 1))"

definition avg_bars :: "trade list \<Rightarrow> real" where
  "avg_bars ts =
     (if ts = [] then 0 else real_of_int (sum_list (map t_bars_held ts)) / real (length ts))"

text \<open>\<open>np.maximum.accumulate\<close> and the drawdown of an equity curve that is not empty.\<close>

fun accumulate_max :: "real \<Rightarrow> real list \<Rightarrow> real list" where
  "accumulate_max m [] = []"
| "accumulate_max m (x # xs) = max m x # accumulate_max (max m x) xs"

definition running_max :: "real list \<Rightarrow> real list" where
  "running_max eq = (case eq of [] \<Rightarrow> [] | x # xs \<Rightarrow> x # accumulate_max x xs)"

definition drawdowns :: "real list \<Rightarrow> real list" where
  "drawdowns eq = map (\<lambda>(e, m). e - m) (zip eq (running_max eq))"

definition max_drawdown_of :: "real list \<Rightarrow> real" where
  "max_drawdown_of eq = fold min (tl (drawdowns eq)) (hd (drawdowns eq))"

definition max_equity_runup :: "real \<Rightarrow> real list \<Rightarrow> real" where
  "max_equity_runup start eq = fold max (tl (running_max eq)) (hd (running_max eq)) - start"

text \<open>
  The days between the first and the last trade, at least 1. \<open>pd.to_datetime\<close> raises
  on a time it cannot parse, and the comparison of a naive with a zone-aware time raises.
\<close>

definition total_days_of :: "(string \<Rightarrow> tstamp option) \<Rightarrow> trade list \<Rightarrow> py_error + int" where
  "total_days_of to_ts ts =
     (let parsed = map (\<lambda>t. to_ts (t_time t)) ts
      in if None \<in> set parsed then Inl ValueError
         else
           let stamps = map the parsed
           in if \<exists>a \<in> set stamps. \<exists>b \<in> set stamps. ts_aware a \<noteq> ts_aware b then Inl TypeError
              else
                let ns = map ts_ns stamps;
                    total = days (fold max (tl ns) (hd ns) - fold min (tl ns) (hd ns))
                in Inr (if total < 1 then 1 else total))"

definition return_retracement_ratio :: "real \<Rightarrow> real \<Rightarrow> metric" where
  "return_retracement_ratio all_net_profit max_dd =
     (if max_dd < 0 then Fin (all_net_profit / \<bar>max_dd\<bar>) else Inf)"

definition rina_index :: "real \<Rightarrow> real \<Rightarrow> real \<Rightarrow> metric" where
  "rina_index all_net_profit all_winning_percentage max_dd =
     (if max_dd < 0
      then Fin ((all_net_profit * (all_winning_percentage / 100)) / \<bar>max_dd\<bar>)
      else Inf)"

text \<open>
  The metrics dictionary, in the order of its keys; the empty list is the empty
  dictionary the method returns for an empty ledger and from its exception handler
  (an empty equity curve, an unusable trade time, a starting cash of zero in
  \<open>(final_equity - starting_cash) / starting_cash\<close>). The power of the annual rate is
  \<open>powr\<close>, which agrees with Python's \<open>**\<close> on a ratio that is not negative.
\<close>

definition metrics_dict :: "portfolio_manager \<Rightarrow> int \<Rightarrow> (string \<times> metric) list" where
  "metrics_dict pm total_days =
     (let ts = trades pm; lts = long_trades ts; sts = short_trades ts;
          eq = equity_curve pm;
          max_dd = max_drawdown_of eq;
          final_equity = last eq;
          max_consec_wins = fst (streaks (map t_net_profit ts) 0 0 0 0);
          max_consec_losses = snd (streaks (map t_net_profit ts) 0 0 0 0)
      in [(''Total Net Profit (All Trades)'', Fin (net_profit_of ts)),
          (''Total Net Profit (Long Trades)'', Fin (net_profit_of lts)),
          (''Total Net Profit (Short Trades)'', Fin (net_profit_of sts)),
          (''Gross Profit (All Trades)'', Fin (gross_profit ts)),
          (''Gross Profit (Long Trades)'', Fin (gross_profit lts)),
          (''Gross Profit (Short Trades)'', Fin (gross_profit sts)),
          (''Gross Loss (All Trades)'', Fin (gross_loss ts)),
          (''Gross Loss (Long Trades)'', Fin (gross_loss lts)),
          (''Gross Loss (Short Trades)'', Fin (gross_loss sts)),
          (''Profit Factor (All Trades)'', pf (gross_profit ts) (gross_loss ts)),
          (''Profit Factor (Long Trades)'', pf (gross_profit lts) (gross_loss lts)),
          (''Profit Factor (Short Trades)'', pf (gross_profit sts) (gross_loss sts)),
          (''Number of Trades (All)'', Fin (real (length ts))),
          (''Number of Trades (Long)'', Fin (real (length lts))),
          (''Number of Trades (Short)'', Fin (real (length sts))),
          (''Winning Percentage (All Trades)'', Fin (winning_percentage ts)),
          (''Winning Percentage (Long Trades)'', Fin (winning_percentage lts)),
          (''Winning Percentage (Short Trades)'', Fin (winning_percentage sts)),
          (''Losing Percentage (All Trades)'', Fin (losing_percentage ts)),
          (''Losing Percentage (Long Trades)'', Fin (losing_percentage lts)),
          (''Losing Percentage (Short Trades)'', Fin (losing_percentage sts)),
          (''Average Trade Net Profit (All)'', Fin (avg_trade ts)),
          (''Average Trade Net Profit (Long)'', Fin (avg_trade lts)),
          (''Average Trade Net Profit (Short)'', Fin (avg_trade sts)),
          (''Largest Winning Trade (All)'', Fin (largest_win ts)),
          (''Largest Winning Trade (Long)'', Fin (largest_win lts)),
          (''Largest Winning Trade (Short)'', Fin (largest_win sts)),
          (''Largest Losing Trade (All)'', Fin (largest_loss ts)),
          (''Largest Losing Trade (Long)'', Fin (largest_loss lts)),
          (''Largest Losing Trade (Short)'', Fin (largest_loss sts)),
          (''Max Consecutive Winning Trades (All)'', Fin (real max_consec_wins)),
          (''Max Consecutive Losing Trades (All)'', Fin (real max_consec_losses)),
          (''Average Bars in Winning Trades (All)'', Fin (avg_bars (winners ts))),
          (''Average Bars in Losing Trades (All)'', Fin (avg_bars (losers ts))),
          (''Max Drawdown (All Trades)'', Fin max_dd),
          (''Return on Initial Capital'',
             Fin (((final_equity - starting_cash pm) / starting_cash pm) * 100)),
          (''Annual Rate of Return'',
             Fin (((final_equity / starting_cash pm) powr (365 / real_of_int total_days) - 1) * 100)),
          (''Return Retracement Ratio'',
             return_retracement_ratio (net_profit_of ts) max_dd),
          (''RINA Index'', rina_index (net_profit_of ts) (winning_percentage ts) max_dd),
          (''Max Equity Run-up'', Fin (max_equity_runup (starting_cash pm) eq))])"

definition calculate_performance_metrics ::
  "(string \<Rightarrow> tstamp option) \<Rightarrow> portfolio_manager \<Rightarrow> (string \<times> metric) list" where
  "calculate_performance_metrics to_ts pm =
     (if trades pm = [] then []
      else if equity_curve pm = [] then []
      else case total_days_of to_ts (trades pm) of
             Inl e \<Rightarrow> []
           | Inr total_days \<Rightarrow>
               if starting_cash pm = 0 then [] else metrics_dict pm total_days)"

section \<open>Concrete inputs\<close>

text \<open>
  The signal the strategy emits, from the flat state, on a bar that closes below its
  average.
\<close>

definition sample_short_signal :: signal where
  "sample_short_signal =
     the (snd (generate_signal Some id (SMA_CrossoverStrategy_init ''NATGAS'' 1000)
        \<lparr>cb_time = Some (TimeStr ''2023-04-20T10:00:00''), cb_close = Some (Num 9),
         cb_sma = Some (Num 11)\<rparr>))"

text \<open>
  Three bars above their average, with a string time, a datetime object and a string
  time again; \<open>day_of\<close> and \<open>day_name\<close> stand for \<open>fromisoformat\<close> and
  \<open>isoformat\<close> on three days.
\<close>

definition rising_bars :: "nat current_bar list" where
  "rising_bars =
     [\<lparr>cb_time = Some (TimeStr ''2023-04-20''), cb_close = Some (Num 12), cb_sma = Some (Num 11)\<rparr>,
      \<lparr>cb_time = Some (TimeObj 7), cb_close = Some (Num 13), cb_sma = Some (Num 11)\<rparr>,
      \<lparr>cb_time = Some (TimeStr ''2023-04-22''), cb_close = Some (Num 12), cb_sma = Some (Num (23/2))\<rparr>]"

definition day_of :: "string \<Rightarrow> nat option" where
  "day_of s = map_of [(''2023-04-20'', 0), (''2023-04-21'', 1), (''2023-04-22'', 2)] s"

definition day_name :: "nat \<Rightarrow> string" where
  "day_name d = (if d = 0 then ''2023-04-20'' else if d = 1 then ''2023-04-21'' else ''2023-04-22'')"

text \<open>Fills of one instrument: a sell without a position, two buys, three sells.\<close>

definition mk_fill :: "string \<Rightarrow> real \<Rightarrow> real \<Rightarrow> filled_order" where
  "mk_fill action sz price =
     \<lparr>fo_instrument = ''NATGAS'', fo_filled_price = price, fo_size = sz,
      fo_time = ''2023-04-20T10:00:00'', fo_action = action,
      fo_stop_loss = price * 0.99, fo_take_profit = price * 1.05\<rparr>"

definition sample_fills :: "filled_order list" where
  "sample_fills = [mk_fill ''sell'' 5 10, mk_fill ''buy'' 10 10, mk_fill ''buy'' 10 12,
                   mk_fill ''sell'' 5 11, mk_fill ''sell'' 20 11, mk_fill ''sell'' 1 11]"

text \<open>
  A portfolio that holds ten units bought at 4, trades of that instrument, and a parser
  that knows three times of day: the entry, six hours later, three days later.
\<close>

definition sample_timestamp :: "string \<Rightarrow> tstamp option" where
  "sample_timestamp s =
     map_of [(''2023-04-20T10:00:00'', Timestamp 0 False),
             (''2023-04-20T16:00:00'', Timestamp 21600000000000 False),
             (''2023-04-23T10:00:00'', Timestamp 259200000000000 False)] s"

definition long_position :: position where
  "long_position = \<lparr>p_size = 10, p_entry_price = 4, p_entry_time = ''2023-04-20T10:00:00''\<rparr>"

definition sample_portfolio :: portfolio_manager where
  "sample_portfolio =
     (PortfolioManager_init 100000)\<lparr>positions := [(''NATGAS'', long_position)], cash := 99960\<rparr>"

definition sample_trade :: "string \<Rightarrow> real \<Rightarrow> real \<Rightarrow> string \<Rightarrow> trade" where
  "sample_trade action sz price t =
     \<lparr>t_instrument = ''NATGAS'', t_action = action, t_size = sz, t_filled_price = price,
      t_time = t, t_reason = ''order_filled'', t_net_profit = 0, t_bars_held = 0\<rparr>"

text \<open>A sell of the ten units whose time no parser accepts.\<close>

definition unparsable_fill :: fill where
  "unparsable_fill =
     \<lparr>f_instrument = ''NATGAS'', f_action = ''sell'', f_size = 10, f_filled_price = 9,
      f_time = Some ''tomorrow-ish'', f_reason = None\<rparr>"

text \<open>
  Events for an empty portfolio: a buy, a stop that closes the position, and a stop
  that finds no position.
\<close>

definition buy_event :: pm_event where
  "buy_event =
     OrderFilled ''2023-04-20T10:00:00''
       \<lparr>f_instrument = ''NATGAS'', f_action = ''buy'', f_size = 10, f_filled_price = 4,
        f_time = None, f_reason = None\<rparr>"

definition stop_event :: pm_event where
  "stop_event =
     StopTriggered ''2023-04-23T10:00:00''
       \<lparr>si_instrument = ''NATGAS'', si_reason = ''stop_loss'', si_stop_level = 3\<rparr>"

definition sample_events :: "pm_event list" where
  "sample_events = [buy_event, stop_event, stop_event]"

text \<open>The portfolio after the buy, and after the stop that closes the position.\<close>

definition after_buy :: portfolio_manager where
  "after_buy =
     \<lparr>trades = [\<lparr>t_instrument = ''NATGAS'', t_action = ''buy'', t_size = 10, t_filled_price = 4,
                  t_time = ''2023-04-20T10:00:00'', t_reason = ''order_filled'',
                  t_net_profit = 0, t_bars_held = 0\<rparr>],
      positions = [(''NATGAS'', \<lparr>p_size = 10, p_entry_price = 4,
                                   p_entry_time = ''2023-04-20T10:00:00''\<rparr>)],
      cash = 99960, starting_cash = 100000, realized_pnl = 0, unrealized_pnl = 0,
      market_data = Map.empty, equity_curve = [100000, 99960]\<rparr>"

definition after_stop :: portfolio_manager where
  "after_stop =
     \<lparr>trades = trades after_buy @
                [\<lparr>t_instrument = ''NATGAS'', t_action = ''sell'', t_size = 10, t_filled_price = 3,
                  t_time = ''2023-04-23T10:00:00'', t_reason = ''stop_loss'',
                  t_net_profit = - 10, t_bars_held = 3\<rparr>],
      positions = [],
      cash = 99990, starting_cash = 100000, realized_pnl = - 10, unrealized_pnl = 0,
      market_data = Map.empty, equity_curve = [100000, 99960, 99990]\<rparr>"

text \<open>Three bars of the feed, closing at 10, 12 and 14.\<close>

definition mk_bar :: "string \<Rightarrow> real \<Rightarrow> string bar" where
  "mk_bar t c = \<lparr>b_time = t, b_open = c, b_high = c, b_low = c, b_close = Some c, b_volume = 100\<rparr>"

definition bar1 :: "string bar" where "bar1 = mk_bar ''2023-04-20'' 10"
definition bar2 :: "string bar" where "bar2 = mk_bar ''2023-04-21'' 12"
definition bar3 :: "string bar" where "bar3 = mk_bar ''2023-04-22'' 14"

section \<open>Verified properties\<close>

subsection \<open>Risk validation of actions other than buy and sell\<close>

lemma sample_short_signal_eq:
  "sample_short_signal = \<lparr>sg_action = Some ''short'', sg_instrument = Some ''NATGAS'',
      sg_size = 1000, sg_price = Some 9, sg_time = ''2023-04-20T10:00:00''\<rparr>"
  by (simp add: sample_short_signal_def generate_signal_def crossover_def falsy_time_def
      SMA_CrossoverStrategy_init_def mk_signal_def)

text \<open>
  C1. A signal whose action is neither \<open>buy\<close> nor \<open>sell\<close> yields no order, and when
  it passes the drawdown, instrument, price and size checks, the reason recorded for its
  instrument is the invalid-action reason carrying that action.
\<close>

theorem invalid_action_rejected:
  assumes "sg_action sg \<noteq> Some ''buy''" and "sg_action sg \<noteq> Some ''sell''"
  shows "snd (apply_risk_rules rm sg) = None
         \<and> (passes_earlier_checks rm sg \<longrightarrow>
              rm_no_trade_reasons (fst (apply_risk_rules rm sg)) (reason_key sg)
                = Some (InvalidAction (sg_action sg)))"
  using assms
  by (simp add: apply_risk_rules_def passes_earlier_checks_def log_no_trade_reason_def Let_def)

text \<open>
  The \<open>short\<close> signal of the strategy, sent to a risk manager with the default
  parameters, passes the earlier checks and is rejected for its action.
\<close>

theorem invalid_action_rejected_witness:
  "sg_action sample_short_signal \<noteq> Some ''buy''
   \<and> sg_action sample_short_signal \<noteq> Some ''sell''
   \<and> passes_earlier_checks (RiskManager_init 100000) sample_short_signal
   \<and> snd (apply_risk_rules (RiskManager_init 100000) sample_short_signal) = None
   \<and> rm_no_trade_reasons (fst (apply_risk_rules (RiskManager_init 100000) sample_short_signal))
        ''NATGAS'' = Some (InvalidAction (Some ''short''))"
proof -
  have a: "sg_action sample_short_signal \<noteq> Some ''buy''"
    and b: "sg_action sample_short_signal \<noteq> Some ''sell''"
    by (simp_all add: sample_short_signal_eq)
  have p: "passes_earlier_checks (RiskManager_init 100000) sample_short_signal"
    by (simp add: sample_short_signal_eq passes_earlier_checks_def RiskManager_init_def
        get_current_drawdown_def truthy_str_def truthy_num_def resolve_price_def
        get_current_price_def py_int_def Let_def)
  have k: "reason_key sample_short_signal = ''NATGAS''"
    by (simp add: sample_short_signal_eq reason_key_def)
  show ?thesis
    using invalid_action_rejected [OF a b, of "RiskManager_init 100000"] a b p k
    by (simp add: sample_short_signal_eq)
qed

subsection \<open>The signal generator above the average\<close>

lemma above_smaD:
  assumes "above_sma fi bar"
  shows "\<exists>c m d. cb_close bar = Some (Num c) \<and> cb_sma bar = Some (Num m) \<and> m < c
           \<and> \<not> falsy_time (cb_time bar)
           \<and> (case the (cb_time bar) of TimeStr s \<Rightarrow> fi s | TimeObj d \<Rightarrow> Some d) = Some d"
proof -
  have t: "usable_time fi (cb_time bar)" and n: "num_above (cb_close bar) (cb_sma bar)"
    using assms by (simp_all add: above_sma_def)
  from n obtain c m where "cb_close bar = Some (Num c)" "cb_sma bar = Some (Num m)" "m < c"
    by (cases "cb_close bar"; cases "cb_sma bar")
      (auto simp: num_above_def split: fval.splits)
  moreover from t obtain d where "\<not> falsy_time (cb_time bar)"
    "(case the (cb_time bar) of TimeStr s \<Rightarrow> fi s | TimeObj d \<Rightarrow> Some d) = Some d"
    by (cases "cb_time bar")
      (auto simp: usable_time_def falsy_time_def split: time_field.splits)
  ultimately show ?thesis by blast
qed

lemma above_sma_flat:
  assumes "above_sma fi bar" and "current_position st \<noteq> Some ''long''"
  shows "\<exists>sg. generate_signal fi fmt st bar = (st\<lparr>current_position := Some ''long''\<rparr>, Some sg)
              \<and> sg_action sg = Some ''buy''"
proof -
  from above_smaD [OF assms(1)] obtain c m d where
    "cb_close bar = Some (Num c)" "cb_sma bar = Some (Num m)" "m < c"
    "\<not> falsy_time (cb_time bar)"
    "(case the (cb_time bar) of TimeStr s \<Rightarrow> fi s | TimeObj d \<Rightarrow> Some d) = Some d"
    by blast
  then show ?thesis
    using assms(2) by (simp add: generate_signal_def crossover_def mk_signal_def)
qed

lemma above_sma_long:
  assumes "above_sma fi bar" and "current_position st = Some ''long''"
  shows "generate_signal fi fmt st bar = (st, None)"
proof -
  from above_smaD [OF assms(1)] obtain c m d where
    "cb_close bar = Some (Num c)" "cb_sma bar = Some (Num m)" "m < c"
    "\<not> falsy_time (cb_time bar)"
    "(case the (cb_time bar) of TimeStr s \<Rightarrow> fi s | TimeObj d \<Rightarrow> Some d) = Some d"
    by blast
  then show ?thesis
    using assms(2) by (simp add: generate_signal_def crossover_def)
qed

lemma run_strategy_long:
  assumes "\<forall>b \<in> set bars. above_sma fi b" and "current_position st = Some ''long''"
  shows "run_strategy fi fmt st bars = (st, replicate (length bars) None)"
  using assms
  by (induction bars) (simp_all add: above_sma_long)

text \<open>
  C9. On a sequence of bars that the generator can use (a time that is there and
  parses, numbers for \<open>close\<close> and \<open>sma\<close>, what \<open>generate_signal\<close> requires
  before it compares) and whose close is above the average in every bar, a generator that starts flat emits one \<open>buy\<close> signal, on the
  first bar, ends in the long state, and emits nothing on the later bars.
\<close>

theorem single_buy_above_sma:
  assumes "bars \<noteq> []" and "\<forall>b \<in> set bars. above_sma fi b"
    and "current_position st = None"
  shows "\<exists>sg. snd (run_strategy fi fmt st bars) = Some sg # replicate (length bars - 1) None
              \<and> sg_action sg = Some ''buy''
              \<and> current_position (fst (run_strategy fi fmt st bars)) = Some ''long''"
proof -
  obtain b bs where bars: "bars = b # bs"
    using assms(1) by (cases bars) auto
  have "above_sma fi b" and rest: "\<forall>x \<in> set bs. above_sma fi x"
    using assms(2) bars by auto
  then obtain sg where
    step: "generate_signal fi fmt st b = (st\<lparr>current_position := Some ''long''\<rparr>, Some sg)"
    and buy: "sg_action sg = Some ''buy''"
    using above_sma_flat [of fi b st fmt] assms(3) by auto
  have "run_strategy fi fmt (st\<lparr>current_position := Some ''long''\<rparr>) bs
          = (st\<lparr>current_position := Some ''long''\<rparr>, replicate (length bs) None)"
    using run_strategy_long [OF rest] by simp
  then show ?thesis
    using step buy bars by simp
qed

theorem single_buy_above_sma_witness:
  "rising_bars \<noteq> [] \<and> list_all (above_sma day_of) rising_bars
   \<and> current_position (SMA_CrossoverStrategy_init ''NATGAS'' 1000) = None
   \<and> map (map_option sg_action)
        (snd (run_strategy day_of day_name (SMA_CrossoverStrategy_init ''NATGAS'' 1000) rising_bars))
      = [Some (Some ''buy''), None, None]"
proof -
  have a: "rising_bars \<noteq> []" by (simp add: rising_bars_def)
  have b: "\<forall>b \<in> set rising_bars. above_sma day_of b"
    by (simp add: rising_bars_def above_sma_def usable_time_def num_above_def day_of_def)
  have c: "current_position (SMA_CrossoverStrategy_init ''NATGAS'' 1000) = None"
    by (simp add: SMA_CrossoverStrategy_init_def)
  have l: "length rising_bars = 3" by (simp add: rising_bars_def)
  show ?thesis
    using single_buy_above_sma [OF a b c, of day_name] a b c l
    by (auto simp: numeral_3_eq_3 list_all_iff)
qed

subsection \<open>The position book of the order handler\<close>

lemma OrderHandler_update_positions_positive:
  assumes "positive_book oh" and "0 < fo_size fo"
  shows "\<exists>oh'. OrderHandler_update_positions oh fo = Inr oh' \<and> positive_book oh'"
proof (cases "open_positions oh (fo_instrument fo)")
  case None
  then show ?thesis
    using assms
    by (auto simp: OrderHandler_update_positions_def positive_book_def Let_def)
next
  case (Some existing)
  have pos: "0 < op_size existing"
    using assms(1) Some by (simp add: positive_book_def)
  have sum: "0 < op_size existing + fo_size fo"
    using pos assms(2) by simp
  consider "fo_action fo = ''buy''" | "fo_action fo = ''sell''"
    | "fo_action fo \<noteq> ''buy''" "fo_action fo \<noteq> ''sell''"
    by blast
  then show ?thesis
  proof cases
    case 1
    then show ?thesis
      using Some sum assms(1)
      by (simp add: OrderHandler_update_positions_def positive_book_def Let_def)
  next
    case 2
    then show ?thesis
      using Some assms(1)
      by (simp add: OrderHandler_update_positions_def positive_book_def Let_def)
  next
    case 3
    then show ?thesis
      using assms(1) by (simp add: OrderHandler_update_positions_def)
  qed
qed

lemma fill_all_positive:
  assumes "positive_book oh" and "\<forall>fo \<in> set fos. 0 < fo_size fo"
  shows "\<exists>oh'. fill_all oh fos = Inr oh' \<and> positive_book oh'"
  using assms
proof (induction fos arbitrary: oh)
  case Nil
  then show ?case by simp
next
  case (Cons fo fos)
  then obtain oh1 where "OrderHandler_update_positions oh fo = Inr oh1" "positive_book oh1"
    using OrderHandler_update_positions_positive [of oh fo] by auto
  then show ?case
    using Cons by simp
qed

text \<open>
  C10. After any sequence of fills of positive size, starting from the empty book, the
  order handler has run without an exception and every entry of \<open>open_positions\<close>
  has a positive size; a \<open>sell\<close> fill for an instrument without an open position
  leaves the whole order handler, its book and its realized P&L, as it was.
\<close>

theorem order_handler_book_positive:
  "((\<forall>fo \<in> set fos. 0 < fo_size fo) \<longrightarrow>
      (\<exists>oh'. fill_all (OrderHandler_init capital position_size) fos = Inr oh'
         \<and> (\<forall>i p. open_positions oh' i = Some p \<longrightarrow> 0 < op_size p)))
   \<and> (fo_action fo = ''sell'' \<and> open_positions oh (fo_instrument fo) = None \<longrightarrow>
        OrderHandler_update_positions oh fo = Inr oh)"
proof -
  have "positive_book (OrderHandler_init capital position_size)"
    by (simp add: positive_book_def OrderHandler_init_def)
  then have "(\<forall>fo \<in> set fos. 0 < fo_size fo) \<longrightarrow>
      (\<exists>oh'. fill_all (OrderHandler_init capital position_size) fos = Inr oh' \<and> positive_book oh')"
    using fill_all_positive by blast
  moreover have "fo_action fo = ''sell'' \<and> open_positions oh (fo_instrument fo) = None \<longrightarrow>
        OrderHandler_update_positions oh fo = Inr oh"
    by (simp add: OrderHandler_update_positions_def)
  ultimately show ?thesis
    by (simp add: positive_book_def)
qed

theorem order_handler_book_positive_witness:
  "list_all (\<lambda>fo. 0 < fo_size fo) sample_fills
   \<and> (\<exists>oh'. fill_all (OrderHandler_init 100000 1000) sample_fills = Inr oh'
         \<and> (\<forall>i p. open_positions oh' i = Some p \<longrightarrow> 0 < op_size p))
   \<and> fo_action (mk_fill ''sell'' 5 10) = ''sell''
   \<and> open_positions (OrderHandler_init 100000 1000) (fo_instrument (mk_fill ''sell'' 5 10)) = None
   \<and> OrderHandler_update_positions (OrderHandler_init 100000 1000) (mk_fill ''sell'' 5 10)
       = Inr (OrderHandler_init 100000 1000)"
proof -
  have a: "\<forall>fo \<in> set sample_fills. 0 < fo_size fo"
    by (simp add: sample_fills_def mk_fill_def)
  have b: "fo_action (mk_fill ''sell'' 5 10) = ''sell''"
    by (simp add: mk_fill_def)
  have c: "open_positions (OrderHandler_init 100000 1000) (fo_instrument (mk_fill ''sell'' 5 10)) = None"
    by (simp add: OrderHandler_init_def)
  show ?thesis
    using order_handler_book_positive [of sample_fills 100000 1000 "mk_fill ''sell'' 5 10"
        "OrderHandler_init 100000 1000"] a b c
    by (simp add: list_all_iff)
qed

subsection \<open>Adding to a position\<close>

lemma map_of_update_same: "map_of (AList.update k v al) k = Some v"
  by (simp add: update_conv')

lemma keys_update_present:
  "map_of al k = Some v0 \<Longrightarrow> map fst (AList.update k v al) = map fst al"
  by (induction al) (auto split: if_splits)

text \<open>
  C8. A fill of size \<open>s2\<close> at price \<open>p2\<close> in the direction of an open position of
  size \<open>s1\<close> at entry price \<open>p1\<close> leaves one position for the instrument, of size
  \<open>s1 + s2\<close> in that direction, with entry price
  \<open>(s1 * p1 + s2 * p2) / (s1 + s2)\<close> and the entry time it had; no entry is added to
  the position map and the trade is not changed.
\<close>

theorem same_direction_fill_averages:
  assumes "map_of (positions pm) (t_instrument tr) = Some pos"
    and "0 < s1" and "0 < s2"
    and "p_entry_price pos = p1" and "t_size tr = s2" and "t_filled_price tr = p2"
    and "(t_action tr = ''buy'' \<and> p_size pos = s1) \<or> (t_action tr = ''sell'' \<and> p_size pos = - s1)"
  shows "\<exists>pm'. update_positions to_ts pm tr = (pm', tr, None)
           \<and> map_of (positions pm') (t_instrument tr)
               = Some \<lparr>p_size = (if t_action tr = ''buy'' then s1 + s2 else - (s1 + s2)),
                       p_entry_price = (s1 * p1 + s2 * p2) / (s1 + s2),
                       p_entry_time = p_entry_time pos\<rparr>
           \<and> map fst (positions pm') = map fst (positions pm)"
proof -
  have ne: "s1 + s2 \<noteq> 0" using assms(2,3) by simp
  have ne': "- s1 - s2 \<noteq> 0" using assms(2,3) by simp
  have short: "(- (p1 * s1) - p2 * s2) / (- s1 - s2) = (s1 * p1 + s2 * p2) / (s1 + s2)"
    using ne ne' by (simp add: frac_eq_eq algebra_simps)
  from assms(7) show ?thesis
  proof
    assume "t_action tr = ''buy'' \<and> p_size pos = s1"
    then show ?thesis
      using assms(1-6) ne
      by (simp add: update_positions_def Let_def map_of_update_same keys_update_present
          mult.commute)
  next
    assume "t_action tr = ''sell'' \<and> p_size pos = - s1"
    then show ?thesis
      using assms(1-6) ne short
      by (simp add: update_positions_def Let_def map_of_update_same keys_update_present
          mult.commute)
  qed
qed


theorem same_direction_fill_averages_witness:
  "map_of (positions sample_portfolio) ''NATGAS'' = Some long_position
   \<and> map_of (positions (fst (update_positions sample_timestamp sample_portfolio
         (sample_trade ''buy'' 30 8 ''2023-04-23T10:00:00'')))) ''NATGAS''
       = Some \<lparr>p_size = 40, p_entry_price = 7, p_entry_time = ''2023-04-20T10:00:00''\<rparr>"
proof -
  let ?tr = "sample_trade ''buy'' 30 8 ''2023-04-23T10:00:00''"
  have a: "map_of (positions sample_portfolio) (t_instrument ?tr) = Some long_position"
    by (simp add: sample_portfolio_def sample_trade_def)
  have b: "(t_action ?tr = ''buy'' \<and> p_size long_position = 10)
           \<or> (t_action ?tr = ''sell'' \<and> p_size long_position = - 10)"
    by (simp add: sample_trade_def long_position_def)
  have "\<exists>pm'. update_positions sample_timestamp sample_portfolio ?tr = (pm', ?tr, None)
           \<and> map_of (positions pm') (t_instrument ?tr)
               = Some \<lparr>p_size = (if t_action ?tr = ''buy'' then 10 + 30 else - (10 + 30)),
                       p_entry_price = (10 * 4 + 30 * 8) / (10 + 30),
                       p_entry_time = p_entry_time long_position\<rparr>
           \<and> map fst (positions pm') = map fst (positions sample_portfolio)"
    by (rule same_direction_fill_averages [OF a _ _ _ _ _ b])
      (simp_all add: sample_trade_def long_position_def)
  then show ?thesis
    using a by (auto simp: sample_trade_def long_position_def)
qed

subsection \<open>Closing a position\<close>




subsection \<open>The steps of a fill\<close>

lemma update_positions_frame:
  assumes "update_positions to_ts pm tr = (pm1, tr1, err)"
  shows "cash pm1 = cash pm \<and> equity_curve pm1 = equity_curve pm \<and> trades pm1 = trades pm
         \<and> t_action tr1 = t_action tr \<and> t_size tr1 = t_size tr
         \<and> t_filled_price tr1 = t_filled_price tr"
  using assms
  by (auto simp: update_positions_def Let_def update_realized_pnl_def
      split: if_splits option.splits sum.splits)

lemma update_positions_failed:
  assumes "update_positions to_ts pm tr = (pm1, tr1, err)"
    and "err = Some ValueError \<or> err = Some TypeError"
  shows "pm1 = pm \<and> tr1 = tr"
  using assms
  by (auto simp: update_positions_def Let_def ts_sub_def
      split: if_splits option.splits sum.splits)

lemma update_cash_frame:
  "equity_curve (update_cash pm tr) = equity_curve pm \<and> trades (update_cash pm tr) = trades pm
   \<and> positions (update_cash pm tr) = positions pm
   \<and> realized_pnl (update_cash pm tr) = realized_pnl pm
   \<and> cash (update_cash pm tr) =
        (if t_action tr = ''buy'' then cash pm - t_filled_price tr * t_size tr
         else cash pm + t_filled_price tr * t_size tr)"
  by (simp add: update_cash_def Let_def)

lemma update_equity_curve_appends:
  "equity_curve (update_equity_curve pm)
     = equity_curve pm @ [cash (update_equity_curve pm) + unrealized_pnl (update_equity_curve pm)]
   \<and> cash (update_equity_curve pm) = cash pm \<and> trades (update_equity_curve pm) = trades pm
   \<and> positions (update_equity_curve pm) = positions pm
   \<and> realized_pnl (update_equity_curve pm) = realized_pnl pm"
  by (simp add: update_equity_curve_def calculate_unrealized_pnl_def Let_def)

lemma on_order_filled_unfold:
  assumes "update_positions to_ts pm (prepare_trade now f) = (pm1, tr1, err)"
  shows "on_order_filled to_ts now pm f
           = (update_equity_curve (update_cash pm1 tr1))
               \<lparr>trades := trades (update_equity_curve (update_cash pm1 tr1)) @ [tr1]\<rparr>"
  using assms by (simp add: on_order_filled_def Let_def)

text \<open>
  C7, as amended. Processing a fill is not atomic: each step catches its own
  exceptions and the next step runs. Whatever the position update does, the cash is
  changed by price times size, one equity value, cash plus unrealized P&L, is appended,
  and the trade is appended to the ledger. When the position update fails on an entry or
  exit time that cannot be parsed or subtracted, the position map and the realized P&L
  stay as they were and the trade keeps its placeholders.
\<close>

theorem fill_steps_not_rolled_back:
  assumes "update_positions to_ts pm (prepare_trade now f) = (pm1, tr1, err)"
  shows "cash (on_order_filled to_ts now pm f) =
           (if f_action f = ''buy'' then cash pm - f_filled_price f * f_size f
            else cash pm + f_filled_price f * f_size f)
         \<and> equity_curve (on_order_filled to_ts now pm f) =
             equity_curve pm @ [cash (on_order_filled to_ts now pm f)
                                + unrealized_pnl (on_order_filled to_ts now pm f)]
         \<and> trades (on_order_filled to_ts now pm f) = trades pm @ [tr1]
         \<and> positions (on_order_filled to_ts now pm f) = positions pm1
         \<and> (err = Some ValueError \<or> err = Some TypeError \<longrightarrow>
              positions (on_order_filled to_ts now pm f) = positions pm
              \<and> realized_pnl (on_order_filled to_ts now pm f) = realized_pnl pm
              \<and> tr1 = prepare_trade now f)"
proof -
  let ?pm2 = "update_cash pm1 tr1"
  let ?pm3 = "update_equity_curve ?pm2"
  have u: "on_order_filled to_ts now pm f = ?pm3\<lparr>trades := trades ?pm3 @ [tr1]\<rparr>"
    using on_order_filled_unfold [OF assms] .
  have f1: "cash pm1 = cash pm" "equity_curve pm1 = equity_curve pm" "trades pm1 = trades pm"
    "t_action tr1 = f_action f" "t_size tr1 = f_size f" "t_filled_price tr1 = f_filled_price f"
    using update_positions_frame [OF assms] by (simp_all add: prepare_trade_def)
  have c: "cash ?pm3 = (if f_action f = ''buy'' then cash pm - f_filled_price f * f_size f
            else cash pm + f_filled_price f * f_size f)"
    using update_equity_curve_appends [of ?pm2] update_cash_frame [of pm1 tr1] f1 by simp
  have e: "equity_curve ?pm3 = equity_curve pm @ [cash ?pm3 + unrealized_pnl ?pm3]"
    using update_equity_curve_appends [of ?pm2] update_cash_frame [of pm1 tr1] f1 by simp
  have t: "trades ?pm3 = trades pm"
    using update_equity_curve_appends [of ?pm2] update_cash_frame [of pm1 tr1] f1 by simp
  have p: "positions ?pm3 = positions pm1" "realized_pnl ?pm3 = realized_pnl pm1"
    using update_equity_curve_appends [of ?pm2] update_cash_frame [of pm1 tr1] by simp_all
  have fail: "err = Some ValueError \<or> err = Some TypeError \<longrightarrow> pm1 = pm \<and> tr1 = prepare_trade now f"
    using update_positions_failed [OF assms] by blast
  show ?thesis
    unfolding u using c e t p fail by auto
qed


lemma unparsable_fill_update:
  "update_positions sample_timestamp sample_portfolio (prepare_trade ''2023-04-23T10:00:00'' unparsable_fill)
     = (sample_portfolio, prepare_trade ''2023-04-23T10:00:00'' unparsable_fill, Some ValueError)"
  by (simp add: update_positions_def Let_def sample_portfolio_def prepare_trade_def
      unparsable_fill_def long_position_def sample_timestamp_def PortfolioManager_init_def)

text \<open>
  C7 as stated fails: a sell with an unparsable time leaves the position map as it was,
  the ten units still open, while the cash grows by the proceeds and the equity curve
  gets a new value.
\<close>

theorem atomic_fill_counterexample:
  "snd (snd (update_positions sample_timestamp sample_portfolio
          (prepare_trade ''2023-04-23T10:00:00'' unparsable_fill))) = Some ValueError
   \<and> positions (on_order_filled sample_timestamp ''2023-04-23T10:00:00'' sample_portfolio unparsable_fill)
       = positions sample_portfolio
   \<and> cash sample_portfolio = 99960
   \<and> cash (on_order_filled sample_timestamp ''2023-04-23T10:00:00'' sample_portfolio unparsable_fill)
       = 100050
   \<and> equity_curve sample_portfolio = [100000]
   \<and> equity_curve (on_order_filled sample_timestamp ''2023-04-23T10:00:00'' sample_portfolio unparsable_fill)
       = [100000, 100050]"
  unfolding on_order_filled_unfold [OF unparsable_fill_update] unparsable_fill_update
  by (simp add: update_cash_def update_equity_curve_def calculate_unrealized_pnl_def Let_def
      sample_portfolio_def prepare_trade_def unparsable_fill_def long_position_def
      PortfolioManager_init_def)

theorem fill_steps_not_rolled_back_witness:
  "update_positions sample_timestamp sample_portfolio (prepare_trade ''2023-04-23T10:00:00'' unparsable_fill)
     = (sample_portfolio, prepare_trade ''2023-04-23T10:00:00'' unparsable_fill, Some ValueError)
   \<and> cash (on_order_filled sample_timestamp ''2023-04-23T10:00:00'' sample_portfolio unparsable_fill)
       = cash sample_portfolio + 90
   \<and> positions (on_order_filled sample_timestamp ''2023-04-23T10:00:00'' sample_portfolio unparsable_fill)
       = [(''NATGAS'', long_position)]
   \<and> realized_pnl (on_order_filled sample_timestamp ''2023-04-23T10:00:00'' sample_portfolio unparsable_fill)
       = 0
   \<and> length (equity_curve (on_order_filled sample_timestamp ''2023-04-23T10:00:00'' sample_portfolio unparsable_fill))
       = 2"
proof -
  have pm: "positions sample_portfolio = [(''NATGAS'', long_position)]"
    "realized_pnl sample_portfolio = 0" "equity_curve sample_portfolio = [100000]"
    by (simp_all add: sample_portfolio_def PortfolioManager_init_def)
  have f: "f_action unparsable_fill = ''sell''" "f_filled_price unparsable_fill * f_size unparsable_fill = 90"
    by (simp_all add: unparsable_fill_def)
  show ?thesis
    using fill_steps_not_rolled_back [OF unparsable_fill_update]
    by (simp add: unparsable_fill_update pm f)
qed

subsection \<open>The equity curve\<close>

lemma on_stop_triggered_appends:
  "equity_curve (on_stop_triggered to_ts now pm si)
     = equity_curve pm @ (if is_fill pm (StopTriggered now si)
          then [cash (on_stop_triggered to_ts now pm si) + unrealized_pnl (on_stop_triggered to_ts now pm si)]
          else [])"
proof (cases "is_fill pm (StopTriggered now si)")
  case False
  then show ?thesis
    by (auto simp: on_stop_triggered_def Let_def split: option.splits)
next
  case True
  let ?cur = "case map_of (positions pm) (si_instrument si) of None \<Rightarrow> 0 | Some p \<Rightarrow> p_size p"
  let ?tr = "\<lparr>t_instrument = si_instrument si,
              t_action = (if ?cur > 0 then ''sell'' else ''buy''), t_size = \<bar>?cur\<bar>,
              t_filled_price = si_stop_level si, t_time = now,
              t_reason = si_reason si, t_net_profit = 0, t_bars_held = 0\<rparr>"
  obtain pm1 tr1 err where up: "update_positions to_ts pm ?tr = (pm1, tr1, err)"
    by (cases "update_positions to_ts pm ?tr") auto
  let ?pm3 = "update_equity_curve (update_cash pm1 tr1)"
  have pos: "\<bar>?cur\<bar> > 0"
    using True by (auto split: option.splits)
  have u: "on_stop_triggered to_ts now pm si = ?pm3\<lparr>trades := trades ?pm3 @ [tr1]\<rparr>"
    using pos up by (simp add: on_stop_triggered_def Let_def)
  have "equity_curve ?pm3 = equity_curve pm @ [cash ?pm3 + unrealized_pnl ?pm3]"
    using update_equity_curve_appends [of "update_cash pm1 tr1"] update_cash_frame [of pm1 tr1]
      update_positions_frame [OF up] by simp
  then show ?thesis
    unfolding u using True by simp
qed

lemma on_order_filled_appends:
  "equity_curve (on_order_filled to_ts now pm f)
     = equity_curve pm @ [cash (on_order_filled to_ts now pm f)
                          + unrealized_pnl (on_order_filled to_ts now pm f)]"
proof -
  obtain pm1 tr1 err where up: "update_positions to_ts pm (prepare_trade now f) = (pm1, tr1, err)"
    by (cases "update_positions to_ts pm (prepare_trade now f)") auto
  let ?pm3 = "update_equity_curve (update_cash pm1 tr1)"
  have "equity_curve ?pm3 = equity_curve pm @ [cash ?pm3 + unrealized_pnl ?pm3]"
    using update_equity_curve_appends [of "update_cash pm1 tr1"] update_cash_frame [of pm1 tr1]
      update_positions_frame [OF up] by simp
  then show ?thesis
    unfolding on_order_filled_unfold [OF up] by simp
qed

lemma handle_appends:
  "equity_curve (handle to_ts pm ev)
     = equity_curve pm @ (if is_fill pm ev
          then [cash (handle to_ts pm ev) + unrealized_pnl (handle to_ts pm ev)] else [])"
proof (cases ev)
  case (OrderFilled now f)
  then show ?thesis using on_order_filled_appends [of to_ts now pm f] by simp
next
  case (StopTriggered now si)
  then show ?thesis using on_stop_triggered_appends [of to_ts now pm si] by simp
qed

lemma handle_all_appends:
  "equity_curve (handle_all to_ts pm evs) = equity_curve pm @ equity_after_fills to_ts pm evs"
proof (induction evs arbitrary: pm)
  case Nil
  then show ?case by simp
next
  case (Cons ev evs)
  show ?case
    using Cons [of "handle to_ts pm ev"] handle_appends [of to_ts pm ev]
    by (simp add: Let_def)
qed

lemma length_equity_after_fills:
  "length (equity_after_fills to_ts pm evs) = count_fills to_ts pm evs"
  by (induction evs arbitrary: pm) (simp_all add: Let_def)

text \<open>
  C4. The equity curve starts as the single entry starting cash. Any sequence of events
  extends it at the end, by one value per processed fill (an order fill, or a stop that
  closes a position), each the cash plus the unrealized P&L right after that fill; the
  earlier entries stay. From the initial portfolio its length is 1 plus the number of
  processed fills.
\<close>

theorem equity_curve_append_only:
  "equity_curve (PortfolioManager_init start) = [start]
   \<and> equity_curve (handle_all to_ts pm evs) = equity_curve pm @ equity_after_fills to_ts pm evs
   \<and> length (equity_after_fills to_ts pm evs) = count_fills to_ts pm evs
   \<and> length (equity_curve (handle_all to_ts (PortfolioManager_init start) evs))
       = 1 + count_fills to_ts (PortfolioManager_init start) evs"
proof -
  have "equity_curve (PortfolioManager_init start) = [start]"
    by (simp add: PortfolioManager_init_def)
  then show ?thesis
    using handle_all_appends [of to_ts] length_equity_after_fills [of to_ts]
    by simp
qed

lemma handle_buy_event:
  "handle sample_timestamp (PortfolioManager_init 100000) buy_event = after_buy"
  by (simp add: buy_event_def PortfolioManager_init_def on_order_filled_def
        prepare_trade_def update_positions_def update_cash_def after_buy_def
        update_equity_curve_def calculate_unrealized_pnl_def Let_def)

lemma handle_stop_event:
  "handle sample_timestamp after_buy stop_event = after_stop"
  by (simp add: stop_event_def on_stop_triggered_def update_positions_def update_cash_def
        after_buy_def after_stop_def update_equity_curve_def calculate_unrealized_pnl_def
        update_realized_pnl_def sample_timestamp_def ts_sub_def days_def AList.delete_eq Let_def)

lemma handle_stop_event_flat:
  "handle sample_timestamp after_stop stop_event = after_stop"
  by (simp add: stop_event_def on_stop_triggered_def after_stop_def Let_def)

lemma is_fill_sample:
  "is_fill (PortfolioManager_init 100000) buy_event" "is_fill after_buy stop_event"
  "\<not> is_fill after_stop stop_event"
  by (simp_all add: buy_event_def stop_event_def after_buy_def after_stop_def)

text \<open>A buy, a stop that closes, a stop without a position: two values are appended.\<close>

theorem equity_curve_append_only_witness:
  "equity_curve (handle_all sample_timestamp (PortfolioManager_init 100000) sample_events)
     = [100000, 99960, 99990]
   \<and> count_fills sample_timestamp (PortfolioManager_init 100000) sample_events = 2"
proof -
  have e: "equity_after_fills sample_timestamp (PortfolioManager_init 100000) sample_events
             = [99960, 99990]"
    by (simp add: sample_events_def handle_buy_event handle_stop_event handle_stop_event_flat
        is_fill_sample Let_def)
      (simp add: after_buy_def after_stop_def)
  have s: "equity_curve (PortfolioManager_init 100000) = [100000]"
    by (simp add: PortfolioManager_init_def)
  show ?thesis
    using equity_curve_append_only [of 100000 sample_timestamp "PortfolioManager_init 100000"
        sample_events] e s
    by simp
qed

subsection \<open>The moving average\<close>

lemma feed_buffer:
  "buffer (feed ma bs) = buffer ma @ bs \<and> indicator_window (feed ma bs) = indicator_window ma"
  by (induction bs arbitrary: ma) (simp_all add: on_market_data_def Let_def split: sum.splits)

lemma feed_init:
  "buffer (feed (MarketAnalyzer_init W) bs) = bs"
  "indicator_window (feed (MarketAnalyzer_init W) bs) = W"
  by (simp_all add: feed_buffer MarketAnalyzer_init_def)

lemma rolling_mean_last_present:
  assumes "0 < w" and "\<forall>c \<in> set (drop (length col - w) col). c \<noteq> None"
  shows "rolling_mean_last w col = Num (sum_list (map the (drop (length col - w) col)) / real w)"
  using assms by (auto simp: rolling_mean_last_def Let_def)

lemma window_closes:
  assumes "\<forall>x \<in> set (drop (length xs - w) xs). f x \<noteq> None"
  shows "\<forall>c \<in> set (drop (length (map f xs) - w) (map f xs)). c \<noteq> None"
  using assms by (auto simp: drop_map)

lemma window_values:
  "map the (drop (length (map f xs) - w) (map f xs)) = map (\<lambda>x. the (f x)) (drop (length xs - w) xs)"
  by (simp add: drop_map comp_def)

text \<open>
  C3. With a window \<open>W > 0\<close>, after any sequence of bars: while the bars buffered,
  the current one included, are fewer than \<open>W\<close>, \<open>on_market_data\<close> returns the
  current bar with no \<open>sma\<close> entry; once they are at least \<open>W\<close> and the last
  \<open>W\<close> of them have a close, it returns the current bar with an \<open>sma\<close> entry equal
  to the arithmetic mean of the closes of the last \<open>W\<close> bars, the current one included.
\<close>

theorem sma_of_last_window:
  assumes "0 < W"
  shows "(int (length (bs @ [b])) < W \<longrightarrow>
            snd (on_market_data (feed (MarketAnalyzer_init W) bs) b)
              = Inr \<lparr>mu_data = \<lparr>eb_bar = b, eb_sma = None\<rparr>, mu_history = bs @ [b]\<rparr>)
         \<and> (W \<le> int (length (bs @ [b]))
              \<and> (\<forall>x \<in> set (drop (length (bs @ [b]) - nat W) (bs @ [b])). b_close x \<noteq> None) \<longrightarrow>
            snd (on_market_data (feed (MarketAnalyzer_init W) bs) b)
              = Inr \<lparr>mu_data = \<lparr>eb_bar = b,
                       eb_sma = Some (Num (sum_list (map (\<lambda>x. the (b_close x))
                                  (drop (length (bs @ [b]) - nat W) (bs @ [b]))) / real_of_int W))\<rparr>,
                     mu_history = drop (length (bs @ [b]) - nat W) (bs @ [b])\<rparr>)"
proof (intro conjI impI)
  assume "int (length (bs @ [b])) < W"
  then show "snd (on_market_data (feed (MarketAnalyzer_init W) bs) b)
              = Inr \<lparr>mu_data = \<lparr>eb_bar = b, eb_sma = None\<rparr>, mu_history = bs @ [b]\<rparr>"
    by (simp add: on_market_data_def process_data_def feed_init Let_def)
next
  let ?all = "bs @ [b]"
  let ?win = "drop (length ?all - nat W) ?all"
  assume h: "W \<le> int (length ?all) \<and> (\<forall>x \<in> set ?win. b_close x \<noteq> None)"
  then have len: "\<not> int (length ?all) < W" by simp
  have "b \<in> set ?win"
    using assms by (cases "length bs - (nat W - 1)") (auto simp: drop_append)
  then have b: "b_close b \<noteq> None" using h by blast
  then have key: "\<not> (\<forall>x \<in> set ?all. b_close x = None)" by auto
  have win: "\<forall>c \<in> set (drop (length (map b_close ?all) - nat W) (map b_close ?all)). c \<noteq> None"
    using h window_closes [of ?all "nat W" b_close] by blast
  have mean: "rolling_mean_last (nat W) (map b_close ?all)
                = Num (sum_list (map (\<lambda>x. the (b_close x)) ?win) / real_of_int W)"
    using rolling_mean_last_present [OF _ win] assms window_values [of b_close ?all "nat W"]
    by simp
  have proc: "process_data \<lparr>indicator_window = W, buffer = ?all\<rparr>
                = Inr \<lparr>eb_bar = b, eb_sma = Some (Num (sum_list (map (\<lambda>x. the (b_close x)) ?win)
                                                   / real_of_int W))\<rparr>"
    using len key assms mean by (simp add: process_data_def del: drop_append)
  have st: "feed (MarketAnalyzer_init W) bs = \<lparr>indicator_window = W, buffer = bs\<rparr>"
    using feed_init [of W bs] by (cases "feed (MarketAnalyzer_init W) bs") simp
  show "snd (on_market_data (feed (MarketAnalyzer_init W) bs) b)
              = Inr \<lparr>mu_data = \<lparr>eb_bar = b,
                       eb_sma = Some (Num (sum_list (map (\<lambda>x. the (b_close x)) ?win) / real_of_int W))\<rparr>,
                     mu_history = ?win\<rparr>"
    unfolding st using proc len assms
    by (simp add: on_market_data_def slice_last_def Let_def del: drop_append)
qed


lemma bar_closes:
  "b_close bar1 = Some 10" "b_close bar2 = Some 12" "b_close bar3 = Some 14"
  by (simp_all add: bar1_def bar2_def bar3_def mk_bar_def)

lemma third_bar_update:
  "\<exists>upd. snd (on_market_data \<lparr>indicator_window = 2, buffer = [bar1, bar2]\<rparr> bar3) = Inr upd"
  by (simp add: on_market_data_def process_data_def bar_closes Let_def)

theorem sma_of_last_window_witness:
  "(0::int) < 2
   \<and> snd (on_market_data (feed (MarketAnalyzer_init 2) []) bar1)
       = Inr \<lparr>mu_data = \<lparr>eb_bar = bar1, eb_sma = None\<rparr>, mu_history = [bar1]\<rparr>
   \<and> list_all (\<lambda>x. b_close x \<noteq> None) [bar2, bar3]
   \<and> snd (on_market_data (feed (MarketAnalyzer_init 2) [bar1, bar2]) bar3)
       = Inr \<lparr>mu_data = \<lparr>eb_bar = bar3, eb_sma = Some (Num 13)\<rparr>, mu_history = [bar2, bar3]\<rparr>"
proof -
  have w: "(0::int) < 2" by simp
  have a: "snd (on_market_data (feed (MarketAnalyzer_init 2) []) bar1)
       = Inr \<lparr>mu_data = \<lparr>eb_bar = bar1, eb_sma = None\<rparr>, mu_history = [bar1]\<rparr>"
    using sma_of_last_window [OF w, of "[]" bar1] by simp
  have b: "snd (on_market_data (feed (MarketAnalyzer_init 2) [bar1, bar2]) bar3)
       = Inr \<lparr>mu_data = \<lparr>eb_bar = bar3, eb_sma = Some (Num 13)\<rparr>, mu_history = [bar2, bar3]\<rparr>"
    using sma_of_last_window [OF w, of "[bar1, bar2]" bar3] by (simp add: bar_closes)
  show ?thesis using a b by (simp add: bar_closes)
qed

subsection \<open>The buffer of the indicator engine\<close>

text \<open>
  C6 as stated fails: with a window of 2, the buffer holds three bars after three bars.
\<close>

theorem buffer_bound_counterexample:
  "indicator_window (feed (MarketAnalyzer_init 2) [bar1, bar2, bar3]) = 2
   \<and> length (buffer (feed (MarketAnalyzer_init 2) [bar1, bar2, bar3])) = 3"
  by (simp add: feed_init del: feed.simps)

text \<open>
  C6, as amended. The buffer is never trimmed: after \<open>n\<close> bars it holds all \<open>n\<close>
  of them. What the window \<open>W > 0\<close> bounds is the history published with each update:
  the last \<open>W\<close> bars of the buffer, or all of them while they are fewer.
\<close>

theorem history_window_bounded:
  assumes "0 < W"
  shows "length (buffer (feed (MarketAnalyzer_init W) bs)) = length bs
         \<and> buffer (fst (on_market_data (feed (MarketAnalyzer_init W) bs) b)) = bs @ [b]
         \<and> (snd (on_market_data (feed (MarketAnalyzer_init W) bs) b) = Inr upd \<longrightarrow>
              mu_history upd = drop (length (bs @ [b]) - nat W) (bs @ [b])
              \<and> int (length (mu_history upd)) \<le> W)"
proof -
  have st: "feed (MarketAnalyzer_init W) bs = \<lparr>indicator_window = W, buffer = bs\<rparr>"
    using feed_init [of W bs] by (cases "feed (MarketAnalyzer_init W) bs") simp
  have h: "snd (on_market_data \<lparr>indicator_window = W, buffer = bs\<rparr> b) = Inr upd \<Longrightarrow>
             mu_history upd = drop (length (bs @ [b]) - nat W) (bs @ [b])"
    using assms
    by (auto simp: on_market_data_def slice_last_def Let_def split: sum.splits if_splits
        simp del: drop_append)
  have l: "int (length (drop (length (bs @ [b]) - nat W) (bs @ [b]))) \<le> W"
    using assms by simp
  have f: "buffer (fst (on_market_data \<lparr>indicator_window = W, buffer = bs\<rparr> b)) = bs @ [b]"
    by (simp add: on_market_data_def Let_def split: sum.splits)
  show ?thesis
    unfolding st using h l f by (simp del: drop_append)
qed

theorem history_window_bounded_witness:
  "(0::int) < 2
   \<and> length (buffer (fst (on_market_data (feed (MarketAnalyzer_init 2) [bar1, bar2]) bar3))) = 3
   \<and> (\<exists>upd. snd (on_market_data (feed (MarketAnalyzer_init 2) [bar1, bar2]) bar3) = Inr upd
         \<and> mu_history upd = [bar2, bar3])"
proof -
  have w: "(0::int) < 2" by simp
  obtain upd where u: "snd (on_market_data (feed (MarketAnalyzer_init 2) [bar1, bar2]) bar3) = Inr upd"
  proof -
    have "feed (MarketAnalyzer_init 2) [bar1, bar2] = \<lparr>indicator_window = 2, buffer = [bar1, bar2]\<rparr>"
      using feed_init [of 2 "[bar1, bar2]"]
      by (cases "feed (MarketAnalyzer_init 2) [bar1, bar2] :: string market_analyzer") simp
    then show ?thesis using that third_bar_update by auto
  qed
  show ?thesis
    using history_window_bounded [OF w, of "[bar1, bar2]" bar3 upd] u by simp
qed

subsection \<open>Performance metrics\<close>

lemma fold_min_le: "fold min xs (a::real) \<le> a"
proof (induction xs arbitrary: a)
  case Nil
  then show ?case by simp
next
  case (Cons x xs)
  have "fold min xs (min x a) \<le> min x a" using Cons [of "min x a"] .
  then show ?case by simp
qed

lemma max_drawdown_nonpos:
  assumes "eq \<noteq> []"
  shows "max_drawdown_of eq \<le> 0"
proof -
  obtain x xs where "eq = x # xs" using assms by (cases eq) auto
  then have "hd (drawdowns eq) = 0"
    by (simp add: drawdowns_def running_max_def)
  then show ?thesis
    using fold_min_le [of "tl (drawdowns eq)" "hd (drawdowns eq)"]
    by (simp add: max_drawdown_of_def)
qed

lemma metrics_dict_profit_factor_all:
  "map_of (metrics_dict pm d) ''Profit Factor (All Trades)''
     = Some (pf (gross_profit (trades pm)) (gross_loss (trades pm)))"
  by (simp add: metrics_dict_def Let_def)

lemma metrics_dict_winning_all:
  "map_of (metrics_dict pm d) ''Winning Percentage (All Trades)''
     = Some (Fin (winning_percentage (trades pm)))"
  by (simp add: metrics_dict_def Let_def)

lemma metrics_dict_losing_all:
  "map_of (metrics_dict pm d) ''Losing Percentage (All Trades)''
     = Some (Fin (losing_percentage (trades pm)))"
  by (simp add: metrics_dict_def Let_def)

lemma metrics_dict_profit_factor_long:
  "map_of (metrics_dict pm d) ''Profit Factor (Long Trades)''
     = Some (pf (gross_profit (long_trades (trades pm))) (gross_loss (long_trades (trades pm))))"
  by (simp add: metrics_dict_def Let_def)

lemma metrics_dict_winning_long:
  "map_of (metrics_dict pm d) ''Winning Percentage (Long Trades)''
     = Some (Fin (winning_percentage (long_trades (trades pm))))"
  by (simp add: metrics_dict_def Let_def)

lemma metrics_dict_losing_long:
  "map_of (metrics_dict pm d) ''Losing Percentage (Long Trades)''
     = Some (Fin (losing_percentage (long_trades (trades pm))))"
  by (simp add: metrics_dict_def Let_def)

lemma metrics_dict_profit_factor_short:
  "map_of (metrics_dict pm d) ''Profit Factor (Short Trades)''
     = Some (pf (gross_profit (short_trades (trades pm))) (gross_loss (short_trades (trades pm))))"
  by (simp add: metrics_dict_def Let_def)

lemma metrics_dict_winning_short:
  "map_of (metrics_dict pm d) ''Winning Percentage (Short Trades)''
     = Some (Fin (winning_percentage (short_trades (trades pm))))"
  by (simp add: metrics_dict_def Let_def)

lemma metrics_dict_losing_short:
  "map_of (metrics_dict pm d) ''Losing Percentage (Short Trades)''
     = Some (Fin (losing_percentage (short_trades (trades pm))))"
  by (simp add: metrics_dict_def Let_def)

lemma metrics_dict_retracement:
  "map_of (metrics_dict pm d) ''Return Retracement Ratio''
     = Some (return_retracement_ratio (net_profit_of (trades pm))
               (max_drawdown_of (equity_curve pm)))"
  by (simp add: metrics_dict_def Let_def)

lemma metrics_nonempty:
  assumes "calculate_performance_metrics to_ts pm \<noteq> []"
  shows "\<exists>d. calculate_performance_metrics to_ts pm = metrics_dict pm d
           \<and> trades pm \<noteq> [] \<and> equity_curve pm \<noteq> [] \<and> starting_cash pm \<noteq> 0"
  using assms
  by (auto simp: calculate_performance_metrics_def split: if_splits sum.splits)

lemma percentages_sum:
  "winning_percentage ts + losing_percentage ts = 100"
  "ts = [] \<Longrightarrow> winning_percentage ts = 0"
  by (simp_all add: losing_percentage_def winning_percentage_def pct_def)

lemma retracement_cases:
  assumes "mdd \<le> 0"
  shows "return_retracement_ratio net mdd = (if mdd = 0 then Inf else Fin (net / \<bar>mdd\<bar>))"
  using assms by (simp add: return_retracement_ratio_def)

text \<open>
  C5. \<open>calculate_performance_metrics\<close> always returns: the empty dictionary for an
  empty ledger and from its exception handler, and otherwise a dictionary in which each
  profit factor is gross profit over the absolute gross loss, and infinite when the gross
  loss is 0; the winning and losing percentages of each partition add up to 100, with a
  winning percentage of 0 for an empty partition; and the return retracement ratio is net
  profit over the absolute maximum drawdown, and infinite when the maximum drawdown is 0.
\<close>

theorem metrics_guard_zero_denominators:
  assumes "calculate_performance_metrics to_ts pm = m" and "m \<noteq> []"
  shows "map_of m ''Profit Factor (All Trades)''
           = Some (if gross_loss (trades pm) = 0 then Inf
                   else Fin (gross_profit (trades pm) / \<bar>gross_loss (trades pm)\<bar>))
         \<and> map_of m ''Profit Factor (Long Trades)''
           = Some (if gross_loss (long_trades (trades pm)) = 0 then Inf
                   else Fin (gross_profit (long_trades (trades pm))
                             / \<bar>gross_loss (long_trades (trades pm))\<bar>))
         \<and> map_of m ''Profit Factor (Short Trades)''
           = Some (if gross_loss (short_trades (trades pm)) = 0 then Inf
                   else Fin (gross_profit (short_trades (trades pm))
                             / \<bar>gross_loss (short_trades (trades pm))\<bar>))
         \<and> (\<exists>w l. map_of m ''Winning Percentage (All Trades)'' = Some (Fin w)
                \<and> map_of m ''Losing Percentage (All Trades)'' = Some (Fin l)
                \<and> w + l = 100 \<and> (trades pm = [] \<longrightarrow> w = 0))
         \<and> (\<exists>w l. map_of m ''Winning Percentage (Long Trades)'' = Some (Fin w)
                \<and> map_of m ''Losing Percentage (Long Trades)'' = Some (Fin l)
                \<and> w + l = 100 \<and> (long_trades (trades pm) = [] \<longrightarrow> w = 0))
         \<and> (\<exists>w l. map_of m ''Winning Percentage (Short Trades)'' = Some (Fin w)
                \<and> map_of m ''Losing Percentage (Short Trades)'' = Some (Fin l)
                \<and> w + l = 100 \<and> (short_trades (trades pm) = [] \<longrightarrow> w = 0))
         \<and> map_of m ''Return Retracement Ratio''
           = Some (if max_drawdown_of (equity_curve pm) = 0 then Inf
                   else Fin (net_profit_of (trades pm) / \<bar>max_drawdown_of (equity_curve pm)\<bar>))"
proof -
  obtain d where m: "m = metrics_dict pm d" and eq: "equity_curve pm \<noteq> []"
    using metrics_nonempty [of to_ts pm] assms by auto
  note lookups = metrics_dict_profit_factor_all metrics_dict_profit_factor_long
    metrics_dict_profit_factor_short metrics_dict_winning_all metrics_dict_losing_all
    metrics_dict_winning_long metrics_dict_losing_long metrics_dict_winning_short
    metrics_dict_losing_short metrics_dict_retracement
  show ?thesis
    unfolding m lookups
    using retracement_cases [OF max_drawdown_nonpos [OF eq]]
    by (simp add: pf_def percentages_sum)
qed

text \<open>
  The portfolio after a buy and a losing stop: no gross profit, no losing long trade, a
  drawdown of 40.
\<close>

lemma metrics_dict_not_empty: "metrics_dict pm d \<noteq> []"
  by (simp add: metrics_dict_def Let_def)

lemma after_stop_fields:
  "trades after_stop =
     [\<lparr>t_instrument = ''NATGAS'', t_action = ''buy'', t_size = 10, t_filled_price = 4,
       t_time = ''2023-04-20T10:00:00'', t_reason = ''order_filled'',
       t_net_profit = 0, t_bars_held = 0\<rparr>,
      \<lparr>t_instrument = ''NATGAS'', t_action = ''sell'', t_size = 10, t_filled_price = 3,
       t_time = ''2023-04-23T10:00:00'', t_reason = ''stop_loss'',
       t_net_profit = - 10, t_bars_held = 3\<rparr>]"
  "equity_curve after_stop = [100000, 99960, 99990]"
  "starting_cash after_stop = 100000"
  by (simp_all add: after_stop_def after_buy_def)

lemma after_stop_present:
  "trades after_stop \<noteq> []" "equity_curve after_stop \<noteq> []" "starting_cash after_stop \<noteq> 0"
  by (simp_all add: after_stop_fields)

lemma after_stop_total_days:
  "total_days_of sample_timestamp (trades after_stop) = Inr 3"
  by (simp add: after_stop_fields total_days_of_def sample_timestamp_def days_def Let_def)

lemma after_stop_sums:
  "gross_profit (trades after_stop) = 0" "gross_loss (trades after_stop) = - 10"
  "gross_loss (long_trades (trades after_stop)) = 0"
  "net_profit_of (trades after_stop) = - 10"
  "max_drawdown_of (equity_curve after_stop) = - 40"
  by (simp_all add: after_stop_fields gross_profit_def gross_loss_def net_profit_of_def
      winners_def losers_def long_trades_def max_drawdown_of_def drawdowns_def running_max_def)

theorem metrics_guard_zero_denominators_witness:
  "calculate_performance_metrics sample_timestamp after_stop \<noteq> []
   \<and> map_of (calculate_performance_metrics sample_timestamp after_stop)
        ''Profit Factor (All Trades)'' = Some (Fin 0)
   \<and> map_of (calculate_performance_metrics sample_timestamp after_stop)
        ''Profit Factor (Long Trades)'' = Some Inf
   \<and> map_of (calculate_performance_metrics sample_timestamp after_stop)
        ''Return Retracement Ratio'' = Some (Fin (- (1 / 4)))"
proof -
  have "calculate_performance_metrics sample_timestamp after_stop = metrics_dict after_stop 3"
    by (simp add: calculate_performance_metrics_def after_stop_total_days after_stop_present)
  then have ne: "calculate_performance_metrics sample_timestamp after_stop \<noteq> []"
    by (simp add: metrics_dict_not_empty)
  show ?thesis
    using metrics_guard_zero_denominators [OF refl ne] ne
    by (simp add: after_stop_sums)
qed

end
